theory Spec2Isabelle
  imports Main
begin

section \<open>Data model of torch/_dynamo/repro/after\_aot.py\<close>

text \<open>
  A \<open>torch.device\<close> is a device type with an optional index; \<open>torch.device("cpu")\<close>
  has no index and differs from \<open>torch.device("cpu", 0)\<close>.
\<close>

datatype device = Device (dev_type: string) (dev_index: "nat option")

definition cpu :: device where
  "cpu = Device ''cpu'' None"

datatype dtype =
    Float32 | Float64 | Float16 | BFloat16
  | Int8 | Int16 | Int32 | Int64 | UInt8 | Bool
  | Complex64 | Complex128

fun itemsize :: "dtype \<Rightarrow> nat" where
  "itemsize Float32 = 4"
| "itemsize Float64 = 8"
| "itemsize Float16 = 2"
| "itemsize BFloat16 = 2"
| "itemsize Int8 = 1"
| "itemsize Int16 = 2"
| "itemsize Int32 = 4"
| "itemsize Int64 = 8"
| "itemsize UInt8 = 1"
| "itemsize Bool = 1"
| "itemsize Complex64 = 8"
| "itemsize Complex128 = 16"

text \<open>
  The bytes of an untyped storage: real bytes, the buffer that \<open>rand_strided\<close> fills for
  a dtype and an element count (the deterministic pseudo-random data of the spec: the dtype
  and the count determine it), or nothing (a meta storage).
\<close>

datatype content = Bytes "nat list" | Synthesized dtype nat | NoContent

text \<open>
  An \<open>UntypedStorage\<close>. \<open>st_id\<close> is the identity of the allocation, the key of a
  \<open>StorageWeakRef\<close>: two views share a storage when their storages have the same
  \<open>st_id\<close>.
\<close>

record storage =
  st_id :: nat
  st_device :: device
  st_nbytes :: nat
  st_content :: content

text \<open>
  A \<open>torch.Tensor\<close> as this file reads it: a view on a storage. \<open>t_device\<close> is
  \<open>t.device\<close>; for a fake tensor it is the pretended device while the storage is on
  \<open>meta\<close>. \<open>t_metadata\<close> is \<open>torch._utils.get_tensor_metadata(t)\<close>, keys and
  the \<open>repr\<close> of the values.
\<close>

record tensor =
  t_storage :: storage
  t_shape :: "int list"
  t_stride :: "int list"
  t_storage_offset :: int
  t_dtype :: dtype
  t_device :: device
  t_metadata :: "(string \<times> string) list"

datatype error =
    FileNotFoundError
  | AssertionError
  | TypeError
  | NameError
  | IndexError
  | NotImplementedError string
  | AccuracyError string
  | UnicodeDecodeError
  | Raised string

subsection \<open>Default values\<close>

text \<open>
  Modelled from the spec: \<open>torch._prims_common.make_contiguous_strides_for\<close> is not among
  the sources; the spec calls its result the canonical row-major stride for the shape. The
  stride of a dimension is the product of the later dimensions, a dimension of size 0
  counting as 1, as the factory functions (\<open>torch.empty\<close>) lay a tensor out.
\<close>

fun make_contiguous_strides_for :: "int list \<Rightarrow> int list" where
  "make_contiguous_strides_for [] = []"
| "make_contiguous_strides_for (l # ls) =
     foldr (\<lambda>d m. max d 1 * m) ls 1 # make_contiguous_strides_for ls"

definition stride_or_default :: "int list option \<Rightarrow> int list \<Rightarrow> int list" where
  "stride_or_default stride shape =
     (case stride of Some s \<Rightarrow> s | None \<Rightarrow> make_contiguous_strides_for shape)"

definition dtype_or_default :: "dtype option \<Rightarrow> dtype" where
  "dtype_or_default dtype = (case dtype of Some d \<Rightarrow> d | None \<Rightarrow> Float32)"

definition device_or_default :: "device option \<Rightarrow> device" where
  "device_or_default device = (case device of Some d \<Rightarrow> d | None \<Rightarrow> cpu)"

definition storage_offset_or_default :: "int option \<Rightarrow> int" where
  "storage_offset_or_default storage_offset =
     (case storage_offset of Some n \<Rightarrow> n | None \<Rightarrow> 0)"

subsection \<open>InputReader\<close>

text \<open>
  The runtime values captured as graph inputs: an \<open>int\<close>, a \<open>torch.SymInt\<close> (of which
  only \<open>node.hint\<close> is read), a \<open>torch.Tensor\<close>, or a value of any other type.
\<close>

datatype arg = PInt int | PSymInt int | PTensor tensor | POther

text \<open>
  The calls of \<open>log.warning\<close> (and the one \<open>log.error\<close>), each with the arguments of its
  format string.
\<close>

datatype log_record =
    NoSaveDir
  | DeviceMismatch device device
  | CouldNotLoad "string option"
  | AccuracyFailed string
  | WritingCheckpoint nat
  | CopyingRepro
  | NoWritePermissions
  | CompilerError

text \<open>
  \<open>r_store\<close> is the \<open>ContentStoreReader\<close> (absent without a \<open>save_dir\<close>): a lookup by
  hash in which a missing entry is the \<open>FileNotFoundError\<close> of \<open>read_storage\<close>.
  \<open>r_pbar\<close> counts the updates of the progress bar (absent without one), \<open>r_log\<close>
  holds the warnings in order, and \<open>r_fresh\<close> is the identity the next allocated storage
  gets.
\<close>

record input_reader =
  r_store :: "(string \<rightharpoonup> storage) option"
  r_args :: "arg list"
  r_pbar :: "nat option"
  r_log :: "log_record list"
  r_fresh :: nat

definition new_input_reader :: "(string \<rightharpoonup> storage) option \<Rightarrow> nat option \<Rightarrow> input_reader" where
  "new_input_reader save_dir pb =
     \<lparr> r_store = save_dir, r_args = [], r_pbar = pb,
       r_log = (if save_dir = None then [NoSaveDir] else []),
       r_fresh = 0 \<rparr>"

text \<open>
  Modelled from the spec: \<open>torch._dynamo.testing.rand_strided\<close> is not among the sources;
  the spec has it synthesize data of the requested shape, dtype and device. The buffer
  behind the result holds \<open>sum ((size - 1) * stride) + 1\<close> elements of the dtype, and
  \<open>untyped_storage()\<close> is that buffer; \<open>ident\<close> is the identity of the new allocation.
\<close>

definition rand_strided_storage ::
  "nat \<Rightarrow> int list \<Rightarrow> int list \<Rightarrow> dtype \<Rightarrow> device \<Rightarrow> storage" where
  "rand_strided_storage ident shape stride dt dev =
     (let needed_size = nat (sum_list (map (\<lambda>(s, st). (s - 1) * st) (zip shape stride)) + 1)
      in \<lparr> st_id = ident, st_device = dev,
           st_nbytes = needed_size * itemsize dt,
           st_content = Synthesized dt needed_size \<rparr>)"

definition tick :: "nat option \<Rightarrow> nat option" where
  "tick pb = map_option Suc pb"

text \<open>
  The \<open>try: self.store.read_storage(storage_hash)\<close> of \<open>InputReader.storage\<close>, entered
  only with a store and a hash; \<open>None\<close> is the fall through to random data.
\<close>

definition read_storage :: "(string \<rightharpoonup> storage) option \<Rightarrow> string option \<Rightarrow> storage option" where
  "read_storage st storage_hash =
     (case st of
        None \<Rightarrow> None
      | Some m \<Rightarrow> (case storage_hash of None \<Rightarrow> None | Some h \<Rightarrow> m h))"

text \<open>
  \<open>InputReader.storage\<close>. The result is the storage and the reader after the call.
\<close>

definition reader_storage ::
  "input_reader \<Rightarrow> string option \<Rightarrow> nat \<Rightarrow> device option \<Rightarrow> dtype option
     \<Rightarrow> storage \<times> input_reader" where
  "reader_storage rd storage_hash nbytes device dtype_hint =
     (let rd1 = rd\<lparr>r_pbar := tick (r_pbar rd)\<rparr>;
          dev = device_or_default device;
          hint = dtype_or_default dtype_hint
      in case read_storage (r_store rd1) storage_hash of
           Some s \<Rightarrow>
             (s, if dev \<noteq> st_device s
                 then rd1\<lparr>r_log := r_log rd1 @ [DeviceMismatch dev (st_device s)]\<rparr>
                 else rd1)
         | None \<Rightarrow>
             (let rd2 = rd1\<lparr>r_log := r_log rd1 @ [CouldNotLoad storage_hash]\<rparr>;
                  shape = [int (nbytes div itemsize hint)];
                  stride = stride_or_default None shape
              in (rand_strided_storage (r_fresh rd2) shape stride hint dev,
                  rd2\<lparr>r_fresh := Suc (r_fresh rd2)\<rparr>)))"

text \<open>
  \<open>InputReader.tensor\<close>: an empty tensor of the dtype on the device of the storage, then
  \<open>set_\<close> to the storage, offset, shape and stride, then the metadata.
\<close>

definition reader_tensor ::
  "input_reader \<Rightarrow> storage \<Rightarrow> int list \<Rightarrow> int list option \<Rightarrow> int option \<Rightarrow> dtype option
     \<Rightarrow> (string \<times> string) list \<Rightarrow> tensor \<times> input_reader" where
  "reader_tensor rd strg shape stride storage_offset dtype metadata =
     (let t = \<lparr> t_storage = strg, t_shape = shape,
                t_stride = stride_or_default stride shape,
                t_storage_offset = storage_offset_or_default storage_offset,
                t_dtype = dtype_or_default dtype,
                t_device = st_device strg,
                t_metadata = metadata \<rparr>
      in (t, rd\<lparr>r_args := r_args rd @ [PTensor t]\<rparr>))"

definition reader_symint :: "input_reader \<Rightarrow> int \<Rightarrow> int \<times> input_reader" where
  "reader_symint rd val = (val, rd\<lparr>r_args := r_args rd @ [PInt val]\<rparr>)"

subsection \<open>InputWriter\<close>

text \<open>
  A line of \<open>load_args\<close>, with the optional parts of its format string as options:
  \<^item> \<open>StorageLine v h n dev hint\<close> is \<open>buf<v> = reader.storage(h, n, device=dev, dtype_hint=hint)\<close>;
  \<^item> \<open>TensorLine v shape stride off dt md name\<close> is
    \<open>reader.tensor(buf<v>, shape, stride, storage_offset=off, dtype=dt, **md)  # name\<close>;
  \<^item> \<open>SymintLine val name\<close> is \<open>reader.symint(val)  # name\<close>.
  The variable \<open>buf<v>\<close> is kept as the number \<open>v\<close> the counter gave it.
\<close>

datatype line =
    StorageLine nat "string option" nat "device option" "dtype option"
  | TensorLine nat "int list" "int list option" "int option" "dtype option"
      "(string \<times> string) list" string
  | SymintLine int string

text \<open>
  \<open>w_store\<close> is the \<open>ContentStoreWriter\<close> (absent without a \<open>save_dir\<close>), seen through
  the hash its \<open>write_storage\<close> returns; \<open>w_seen_storages\<close> is keyed by the identity
  of the storage, as the \<open>StorageWeakRef\<close> is.
\<close>

record input_writer =
  w_lines :: "line list"
  w_storage_counter :: nat
  w_store :: "(storage \<Rightarrow> string) option"
  w_seen_storages :: "nat \<rightharpoonup> nat"

definition new_input_writer :: "(storage \<Rightarrow> string) option \<Rightarrow> input_writer" where
  "new_input_writer save_dir =
     \<lparr> w_lines = [], w_storage_counter = 0, w_store = save_dir,
       w_seen_storages = Map.empty \<rparr>"

definition writer_storage ::
  "input_writer \<Rightarrow> storage \<Rightarrow> dtype option \<Rightarrow> device option \<Rightarrow> error + (nat \<times> input_writer)" where
  "writer_storage w untyped_storage dtype_hint device_hint =
     (case w_seen_storages w (st_id untyped_storage) of
        Some v \<Rightarrow> Inr (v, w)
      | None \<Rightarrow>
          (let v = w_storage_counter w;
               maybe_dtype_hint =
                 (if dtype_or_default None \<noteq> dtype_or_default dtype_hint then dtype_hint else None)
           in if dev_type (st_device untyped_storage) = ''meta'' \<and> device_hint = None
              then Inl AssertionError
              else
                (let device = (if dev_type (st_device untyped_storage) = ''meta''
                               then the device_hint else st_device untyped_storage);
                     maybe_device =
                       (if device_or_default None \<noteq> device then Some device else None);
                     nbytes = st_nbytes untyped_storage;
                     storage_hash =
                       (case w_store w of
                          Some write_storage \<Rightarrow>
                            (if dev_type (st_device untyped_storage) \<noteq> ''meta''
                             then Some (write_storage untyped_storage) else None)
                        | None \<Rightarrow> None)
                 in Inr (v, w\<lparr> w_lines := w_lines w @
                                  [StorageLine v storage_hash nbytes maybe_device maybe_dtype_hint],
                               w_storage_counter := Suc v,
                               w_seen_storages := (w_seen_storages w)(st_id untyped_storage \<mapsto> v) \<rparr>))))"

definition writer_tensor :: "input_writer \<Rightarrow> string \<Rightarrow> tensor \<Rightarrow> error + input_writer" where
  "writer_tensor w name t =
     (case writer_storage w (t_storage t) (Some (t_dtype t)) (Some (t_device t)) of
        Inl e \<Rightarrow> Inl e
      | Inr (strg, w1) \<Rightarrow>
          (let maybe_stride =
                 (if stride_or_default None (t_shape t) \<noteq> t_stride t
                  then Some (t_stride t) else None);
               maybe_dtype =
                 (if dtype_or_default None \<noteq> t_dtype t then Some (t_dtype t) else None);
               maybe_storage_offset =
                 (if storage_offset_or_default None \<noteq> t_storage_offset t
                  then Some (t_storage_offset t) else None)
           in Inr (w1\<lparr> w_lines := w_lines w1 @
                         [TensorLine strg (t_shape t) maybe_stride maybe_storage_offset
                            maybe_dtype (t_metadata t) name] \<rparr>)))"

text \<open>
  \<open>InputWriter.symint\<close>, on an \<open>int\<close> or a \<open>SymInt\<close> (given by its hint).
\<close>

definition writer_symint :: "input_writer \<Rightarrow> string \<Rightarrow> int \<Rightarrow> input_writer" where
  "writer_symint w name val = w\<lparr> w_lines := w_lines w @ [SymintLine val name] \<rparr>"

text \<open>
  The loop of \<open>generate_compiler_repro_string\<close> over the placeholders zipped with the
  arguments.
\<close>

fun write_args :: "input_writer \<Rightarrow> (string \<times> arg) list \<Rightarrow> error + input_writer" where
  "write_args w [] = Inr w"
| "write_args w ((placeholder, a) # rest) =
     (case a of
        PInt i \<Rightarrow> write_args (writer_symint w placeholder i) rest
      | PSymInt hint \<Rightarrow> write_args (writer_symint w placeholder hint) rest
      | PTensor t \<Rightarrow>
          (case writer_tensor w placeholder t of
             Inl e \<Rightarrow> Inl e
           | Inr w1 \<Rightarrow> write_args w1 rest)
      | POther \<Rightarrow> Inl TypeError)"

subsection \<open>Replaying a script\<close>

text \<open>
  Running \<open>load_args(reader)\<close>: the lines in order, the variables \<open>buf<v>\<close> in a local
  environment; a tensor line whose variable is unbound raises \<open>NameError\<close>.
\<close>

fun exec_line ::
  "(nat \<rightharpoonup> storage) \<times> input_reader \<Rightarrow> line \<Rightarrow> error + ((nat \<rightharpoonup> storage) \<times> input_reader)" where
  "exec_line (env, rd) (StorageLine v h n dev hint) =
     (case reader_storage rd h n dev hint of (s, rd1) \<Rightarrow> Inr (env(v \<mapsto> s), rd1))"
| "exec_line (env, rd) (TensorLine v shape stride off dt md name) =
     (case env v of
        None \<Rightarrow> Inl NameError
      | Some s \<Rightarrow> Inr (env, snd (reader_tensor rd s shape stride off dt md)))"
| "exec_line (env, rd) (SymintLine val name) = Inr (env, snd (reader_symint rd val))"

fun load_args ::
  "(nat \<rightharpoonup> storage) \<times> input_reader \<Rightarrow> line list \<Rightarrow> error + ((nat \<rightharpoonup> storage) \<times> input_reader)" where
  "load_args s [] = Inr s"
| "load_args s (l # ls) =
     (case exec_line s l of Inl e \<Rightarrow> Inl e | Inr s1 \<Rightarrow> load_args s1 ls)"

text \<open>
  Writing a session with a fresh \<open>InputWriter\<close> and replaying its lines with a fresh
  \<open>InputReader\<close>; the result is the reader's \<open>args\<close>.
\<close>

definition replay :: "(string \<rightharpoonup> storage) option \<Rightarrow> line list \<Rightarrow> error + arg list" where
  "replay save_dir ls =
     (case load_args (Map.empty, new_input_reader save_dir None) ls of
        Inl e \<Rightarrow> Inl e
      | Inr (env, rd) \<Rightarrow> Inr (r_args rd))"

section \<open>The capture wrapper\<close>

text \<open>
  \<open>config.repro_after\<close> and \<open>config.repro_level\<close>, read when the wrapper compiles and
  again when the deferred call runs.
\<close>

record config =
  repro_after :: "string option"
  repro_level :: int

text \<open>
  What the wrapper reads of the graph module: the placeholder targets, the number of nodes
  of the graph, and the name that \<open>get_aot_graph_name\<close> gives the graph.
\<close>

record graph_module =
  placeholders :: "string list"
  num_nodes :: nat
  graph_name :: string

text \<open>
  What the calls leave behind, in order: log records, the checkpoint file
  (\<open>Checkpoint n compiler_name command lines\<close> is \<open><n>.py\<close> with its \<open>load_args\<close>), its
  copy to \<open>repro.py\<close>, the launcher that \<open>helper_for_dump_minify\<close> writes, and the
  indented text that \<open>isolate_fails\<close> prints.
\<close>

datatype effect =
    Logged log_record
  | Checkpoint nat string string "line list"
  | CopiedRepro
  | MinifierLauncher string "line list"
  | IsolateFile string "line list"
  | PrintIndented string string

text \<open>
  The collaborators outside this file, as the wrapper meets them: \<open>compiler_fn\<close> is the
  backend (it raises or returns the compiled callable, which raises or returns the outputs),
  \<open>accuracy_fails\<close> is \<open>backend_aot_accuracy_fails\<close> on the graph module and the backend,
  \<open>from_tensor\<close> is \<open>FakeTensorMode.from_tensor\<close>, \<open>cuda_synchronize\<close>,
  \<open>makedirs_error\<close>, \<open>open_error\<close> and \<open>minify_error\<close> are what
  \<open>torch.cuda.synchronize\<close>, \<open>os.makedirs\<close>, \<open>open\<close> and \<open>helper_for_dump_minify\<close>
  raise (if they do), \<open>copyfile_error\<close> is whether \<open>shutil.copyfile\<close> raises \<open>OSError\<close>,
  and \<open>write_storage\<close> is the hash the content store gives a storage. Every error here is
  an \<open>Exception\<close>; \<open>use_buck\<close> is false.
\<close>

record 'o world =
  compiler_fn :: "graph_module \<Rightarrow> arg list \<Rightarrow> error + (arg list \<Rightarrow> error + 'o)"
  accuracy_fails :: "graph_module \<Rightarrow> arg list \<Rightarrow> error + bool"
  from_tensor :: "tensor \<Rightarrow> tensor"
  cuda_synchronize :: "error option"
  makedirs_error :: "error option"
  open_error :: "error option"
  copyfile_error :: bool
  minify_error :: "error option"
  write_storage :: "storage \<Rightarrow> string"

text \<open>
  \<open>generate_compiler_repro_string\<close>, as far as the arguments go: a writer on the save
  directory and one line per placeholder and argument; an argument that is neither an integer
  nor a tensor raises \<open>TypeError\<close>.
\<close>

definition generate_compiler_repro_string ::
  "'o world \<Rightarrow> graph_module \<Rightarrow> arg list \<Rightarrow> bool \<Rightarrow> error + line list" where
  "generate_compiler_repro_string wd gm as has_save_dir =
     (case write_args (new_input_writer (if has_save_dir then Some (write_storage wd) else None))
             (zip (placeholders gm) as) of
        Inl e \<Rightarrow> Inl e
      | Inr w \<Rightarrow> Inr (w_lines w))"

definition save_graph_repro ::
  "'o world \<Rightarrow> graph_module \<Rightarrow> arg list \<Rightarrow> string \<Rightarrow> bool \<Rightarrow> error + line list" where
  "save_graph_repro wd gm as compiler_name has_save_dir =
     generate_compiler_repro_string wd gm as has_save_dir"

definition dump_compiler_graph_state ::
  "'o world \<Rightarrow> graph_module \<Rightarrow> arg list \<Rightarrow> string \<Rightarrow> effect list \<times> (error + unit)" where
  "dump_compiler_graph_state wd gm as compiler_name =
     (case makedirs_error wd of
        Some e \<Rightarrow> ([], Inl e)
      | None \<Rightarrow>
          (let fx1 = [Logged (WritingCheckpoint (num_nodes gm))]
           in case open_error wd of
                Some e \<Rightarrow> (fx1, Inl e)
              | None \<Rightarrow>
                  (case save_graph_repro wd gm as compiler_name True of
                     Inl e \<Rightarrow> (fx1, Inl e)
                   | Inr ls \<Rightarrow>
                       (fx1 @ [Checkpoint (num_nodes gm) compiler_name ''run'' ls] @
                          (if copyfile_error wd then [Logged NoWritePermissions]
                           else [CopiedRepro, Logged CopyingRepro]),
                        Inr ()))))"

definition dump_to_minify ::
  "'o world \<Rightarrow> graph_module \<Rightarrow> arg list \<Rightarrow> string \<Rightarrow> effect list \<times> (error + unit)" where
  "dump_to_minify wd gm as compiler_name =
     (case makedirs_error wd of
        Some e \<Rightarrow> ([], Inl e)
      | None \<Rightarrow>
          (case save_graph_repro wd gm as compiler_name True of
             Inl e \<Rightarrow> ([], Inl e)
           | Inr ls \<Rightarrow>
               (case minify_error wd of
                  Some e \<Rightarrow> ([], Inl e)
                | None \<Rightarrow> ([MinifierLauncher compiler_name ls], Inr ()))))"

definition is_cuda :: "arg \<Rightarrow> bool" where
  "is_cuda a = (case a of PTensor t \<Rightarrow> dev_type (t_device t) = ''cuda'' | _ \<Rightarrow> False)"

text \<open>
  \<open>inner_debug_fn\<close>, the deferred call with real inputs; \<open>cfg\<close> is the configuration when
  it runs.
\<close>

definition inner_debug_fn ::
  "'o world \<Rightarrow> config \<Rightarrow> string \<Rightarrow> graph_module \<Rightarrow> arg list \<Rightarrow> (arg list \<Rightarrow> error + 'o)
     \<Rightarrow> arg list \<Rightarrow> effect list \<times> (error + 'o)" where
  "inner_debug_fn wd cfg compiler_name gm example_inputs inner_compiled_fn real_inputs =
     (let copy_tensor_attrs =
            map (\<lambda>x. case x of PTensor t \<Rightarrow> PTensor (from_tensor wd t) | _ \<Rightarrow> x) real_inputs;
          (fx3, r3) = (if repro_level cfg = 3
                       then dump_to_minify wd gm real_inputs compiler_name
                       else ([], Inr ()))
      in case r3 of
           Inl e \<Rightarrow> (fx3, Inl e)
         | Inr _ \<Rightarrow>
            (if repro_level cfg = 4 then
               (if compiler_name \<noteq> ''inductor''
                then (fx3, Inl (NotImplementedError
                                  ''Accuracy minification is supported for inductor only''))
                else
                  (case accuracy_fails wd gm real_inputs of
                     Inl e \<Rightarrow> (fx3, Inl e)
                   | Inr True \<Rightarrow>
                       (let fx4 = fx3 @ [Logged (AccuracyFailed (graph_name gm))]
                        in case dump_compiler_graph_state wd gm real_inputs
                                  (compiler_name @ ''_accuracy'') of
                             (fx5, Inl e) \<Rightarrow> (fx4 @ fx5, Inl e)
                           | (fx5, Inr _) \<Rightarrow>
                               (case dump_to_minify wd gm real_inputs
                                       (compiler_name @ ''_accuracy'') of
                                  (fx6, Inl e) \<Rightarrow> (fx4 @ fx5 @ fx6, Inl e)
                                | (fx6, Inr _) \<Rightarrow>
                                    (fx4 @ fx5 @ fx6,
                                     Inl (AccuracyError ''Bad accuracy detected''))))
                   | Inr False \<Rightarrow> (fx3, inner_compiled_fn real_inputs)))
             else
               (let attempt =
                      (case inner_compiled_fn real_inputs of
                         Inl e \<Rightarrow> Inl e
                       | Inr out \<Rightarrow>
                           (if list_ex is_cuda example_inputs
                            then (case cuda_synchronize wd of
                                    Some e \<Rightarrow> Inl e | None \<Rightarrow> Inr out)
                            else Inr out))
                in case attempt of
                     Inr out \<Rightarrow> (fx3, Inr out)
                   | Inl e \<Rightarrow>
                       (if repro_level cfg = 1 then
                          (case dump_compiler_graph_state wd gm copy_tensor_attrs compiler_name of
                             (fx5, Inl e') \<Rightarrow> (fx3 @ fx5, Inl e')
                           | (fx5, Inr _) \<Rightarrow> (fx3 @ fx5, Inl e))
                        else if repro_level cfg = 2 then
                          (case dump_to_minify wd gm copy_tensor_attrs compiler_name of
                             (fx5, Inl e') \<Rightarrow> (fx3 @ fx5, Inl e')
                           | (fx5, Inr _) \<Rightarrow> (fx3 @ fx5, Inl e))
                        else (fx3, Inl e)))))"

text \<open>
  \<open>deferred_for_real_inputs\<close>: the compiled callable itself unless \<open>repro_after\<close> is
  \<open>"aot"\<close> when it is called; \<open>inner_debug_fn\<close> runs with \<open>repro_after\<close> patched to
  \<open>None\<close>.
\<close>

definition deferred_for_real_inputs ::
  "'o world \<Rightarrow> config \<Rightarrow> string \<Rightarrow> graph_module \<Rightarrow> arg list \<Rightarrow> (arg list \<Rightarrow> error + 'o)
     \<Rightarrow> arg list \<Rightarrow> effect list \<times> (error + 'o)" where
  "deferred_for_real_inputs wd cfg compiler_name gm example_inputs inner_compiled_fn real_inputs =
     (if repro_after cfg \<noteq> Some ''aot'' then ([], inner_compiled_fn real_inputs)
      else inner_debug_fn wd (cfg\<lparr>repro_after := None\<rparr>) compiler_name gm example_inputs
             inner_compiled_fn real_inputs)"

text \<open>
  \<open>debug_wrapper\<close>: the result is what the call leaves behind and either the error it
  raises or the callable it returns. The callable takes the configuration of the moment it
  is called.
\<close>

definition debug_wrapper ::
  "'o world \<Rightarrow> config \<Rightarrow> string \<Rightarrow> graph_module \<Rightarrow> arg list
     \<Rightarrow> effect list \<times> (error + (config \<Rightarrow> arg list \<Rightarrow> effect list \<times> (error + 'o)))" where
  "debug_wrapper wd cfg compiler_name gm example_inputs =
     (if repro_after cfg \<notin> {Some ''dynamo'', Some ''aot'', None} then ([], Inl AssertionError)
      else
        (case compiler_fn wd gm example_inputs of
           Inl e \<Rightarrow>
             (if repro_after cfg = Some ''aot'' then
                (let (fx, r) =
                       (if repro_level cfg = 1
                        then dump_compiler_graph_state wd gm example_inputs compiler_name
                        else if repro_level cfg = 2
                        then dump_to_minify wd gm example_inputs compiler_name
                        else ([], Inr ()))
                 in case r of
                      Inl e' \<Rightarrow> (fx, Inl e')
                    | Inr _ \<Rightarrow> (fx @ [Logged CompilerError], Inl e))
              else ([], Inl e))
         | Inr inner_compiled_fn \<Rightarrow>
             (if repro_after cfg = Some ''aot''
              then ([], Inr (\<lambda>cfg' real_inputs.
                      deferred_for_real_inputs wd cfg' compiler_name gm example_inputs
                        inner_compiled_fn real_inputs))
              else ([], Inr (\<lambda>cfg' real_inputs. ([], inner_compiled_fn real_inputs))))))"

section \<open>Isolation and the minifier query\<close>

text \<open>
  The bytes a process leaves in the temporary file of its \<open>stdout\<close> or \<open>stderr\<close>:
  the text they are in UTF-8, or bytes that \<open>decode("utf-8")\<close> rejects with
  \<open>UnicodeDecodeError\<close>.
\<close>

datatype captured = Decodes string | Undecodable

record process =
  returncode :: int
  stdout :: captured
  stderr :: captured

text \<open>
  \<open>isolate_fails\<close>: the candidate is written as a script with the command
  \<open>minifier-query\<close> and run as a process; \<open>popen\<close> is what that process does. On
  an exit code other than 0 the output is decoded and printed, \<open>stdout\<close> first, and a
  decoding error leaves the function as an exception.
\<close>

definition isolate_fails ::
  "'o world \<Rightarrow> (line list \<Rightarrow> process) \<Rightarrow> graph_module \<Rightarrow> arg list \<Rightarrow> string \<Rightarrow> bool
     \<Rightarrow> effect list \<times> (error + bool)" where
  "isolate_fails wd popen fx_g as compiler_name has_save_dir =
     (case makedirs_error wd of
        Some e \<Rightarrow> ([], Inl e)
      | None \<Rightarrow>
          (case open_error wd of
             Some e \<Rightarrow> ([], Inl e)
           | None \<Rightarrow>
               (case save_graph_repro wd fx_g as compiler_name has_save_dir of
                  Inl e \<Rightarrow> ([], Inl e)
                | Inr ls \<Rightarrow>
                    (let p = popen ls
                     in if returncode p \<noteq> 0
                        then
                          (case stdout p of
                             Undecodable \<Rightarrow>
                               ([IsolateFile ''minifier-query'' ls], Inl UnicodeDecodeError)
                           | Decodes out \<Rightarrow>
                               (case stderr p of
                                  Undecodable \<Rightarrow>
                                    ([IsolateFile ''minifier-query'' ls,
                                      PrintIndented ''>>  '' out], Inl UnicodeDecodeError)
                                | Decodes err \<Rightarrow>
                                    ([IsolateFile ''minifier-query'' ls,
                                      PrintIndented ''>>  '' out,
                                      PrintIndented ''>>  '' err], Inr True)))
                        else ([IsolateFile ''minifier-query'' ls], Inr False)))))"

text \<open>
  \<open>repro_minifier_query\<close>: \<open>common\<close> is the outcome of \<open>repro_common\<close>, the two
  predicates are \<open>inductor_accuracy_fails\<close> and \<open>inductor_fails\<close>, and the result is the
  code given to \<open>sys.exit\<close>.
\<close>

definition repro_minifier_query ::
  "bool \<Rightarrow> error + ('m \<times> 'a) \<Rightarrow> ('m \<Rightarrow> 'a \<Rightarrow> error + bool) \<Rightarrow> ('m \<Rightarrow> 'a \<Rightarrow> error + bool)
     \<Rightarrow> error + int" where
  "repro_minifier_query accuracy common inductor_accuracy_fails inductor_fails =
     (case common of
        Inl e \<Rightarrow> Inl e
      | Inr (md, as) \<Rightarrow>
          (let fail_fn = (if accuracy then inductor_accuracy_fails else inductor_fails)
           in case fail_fn md as of
                Inl e \<Rightarrow> Inl e
              | Inr fails \<Rightarrow> (if fails then Inr 1 else Inr 0)))"

section \<open>The analyzer\<close>

text \<open>
  Modelled from the spec: \<open>ContentStoreWriter.compute_tensor_metadata\<close> is not among the
  sources; the spec has the structural metadata of an intermediate be its shape, dtype,
  stride and device, not its content.
\<close>

datatype meta_field = MShape "int list" | MDtype dtype | MStride "int list" | MDevice device

definition compute_tensor_metadata :: "tensor \<Rightarrow> meta_field list" where
  "compute_tensor_metadata t =
     [MShape (t_shape t), MDtype (t_dtype t), MStride (t_stride t), MDevice (t_device t)]"

text \<open>
  The traces in the save directory, keyed by strategy (\<open>inductor\<close>, \<open>float64\<close>) and node
  name: the metadata that \<open>read_tensor_metadata\<close> reads and the tensors that
  \<open>read_tensor\<close> reads; \<open>write_tensor\<close> stores both.
\<close>

record trace_store =
  ts_meta :: "string \<times> string \<rightharpoonup> meta_field list"
  ts_tensor :: "string \<times> string \<rightharpoonup> tensor"

definition write_tensor :: "trace_store \<Rightarrow> string \<times> string \<Rightarrow> tensor \<Rightarrow> trace_store" where
  "write_tensor ts path val =
     ts\<lparr> ts_meta := (ts_meta ts)(path \<mapsto> compute_tensor_metadata val),
         ts_tensor := (ts_tensor ts)(path \<mapsto> val) \<rparr>"

text \<open>
  What the progress bar shows: the lines given to \<open>pbar.write\<close> and the count of
  \<open>pbar.update(1)\<close>.
\<close>

record progress =
  written :: "string list"
  updates :: nat

definition join :: "string \<Rightarrow> string list \<Rightarrow> string" where
  "join sep xs = (case xs of [] \<Rightarrow> [] | y # ys \<Rightarrow> y @ concat (map (\<lambda>z. sep @ z) ys))"

text \<open>
  \<open>compare_tuples\<close>; \<open>fmt\<close> is the text of a component in a format string. Reading
  \<open>tuple2[i]\<close> beyond its end raises \<open>IndexError\<close>.
\<close>

definition compare_tuples :: "('a \<Rightarrow> string) \<Rightarrow> 'a list \<Rightarrow> 'a list \<Rightarrow> error + string option" where
  "compare_tuples fmt tuple1 tuple2 =
     (if length tuple2 < length tuple1 then Inl IndexError
      else
        (let diff_indices = filter (\<lambda>i. tuple1 ! i \<noteq> tuple2 ! i) [0..<length tuple1];
             diff_values = map (\<lambda>i. (tuple1 ! i, tuple2 ! i)) diff_indices
         in if diff_values = [] then Inr None
            else Inr (Some (join '' and '' (map (\<lambda>(a, b). fmt a @ '' != '' @ fmt b) diff_values)))))"

definition save_hook ::
  "bool \<Rightarrow> string \<Rightarrow> tensor \<Rightarrow> string set \<times> trace_store \<times> progress
     \<Rightarrow> string set \<times> trace_store \<times> progress" where
  "save_hook skip_saving_inductor_intermediates name val st =
     (case st of (known_names, ts, pb) \<Rightarrow>
        (insert name known_names,
         if \<not> skip_saving_inductor_intermediates then write_tensor ts (''inductor'', name) val
         else ts,
         pb\<lparr>updates := Suc (updates pb)\<rparr>))"

definition check_hook ::
  "(meta_field \<Rightarrow> string) \<Rightarrow> trace_store \<Rightarrow> string \<Rightarrow> tensor \<Rightarrow> progress \<Rightarrow> error + progress" where
  "check_hook fmt ts name val pb =
     (let meta = compute_tensor_metadata val
      in case ts_meta ts (''inductor'', name) of
           None \<Rightarrow> Inl FileNotFoundError
         | Some meta2 \<Rightarrow>
             (case compare_tuples fmt meta meta2 of
                Inl e \<Rightarrow> Inl e
              | Inr reason \<Rightarrow>
                  (let pb1 = (case reason of
                                None \<Rightarrow> pb
                              | Some r \<Rightarrow>
                                  pb\<lparr>written := written pb @
                                       [''NONDETERMINISTIC INDUCTOR at '' @ name @
                                        '' ('' @ r @ '')'']\<rparr>)
                   in Inr (pb1\<lparr>updates := Suc (updates pb1)\<rparr>))))"

text \<open>
  A run of the compiled graph calls the intermediate hook once per hooked intermediate, in
  order; the run is given by those calls.
\<close>

fun run_hooks ::
  "(string \<Rightarrow> tensor \<Rightarrow> 's \<Rightarrow> error + 's) \<Rightarrow> (string \<times> tensor) list \<Rightarrow> 's \<Rightarrow> error + 's" where
  "run_hooks hook [] st = Inr st"
| "run_hooks hook ((name, val) # rest) st =
     (case hook name val st of Inl e \<Rightarrow> Inl e | Inr st1 \<Rightarrow> run_hooks hook rest st1)"

text \<open>
  \<open>ReaderInterp.run_node\<close> after \<open>super().run_node(n)\<close> has given \<open>r\<close>. \<open>same\<close> is
  \<open>torch._dynamo.utils.same\<close>, given \<open>r\<close>, the two stored values, the tolerance and
  \<open>equal_nan\<close>; it returns its verdict and the messages it passed to \<open>log_error\<close>.
\<close>

definition reader_run_node ::
  "(tensor \<Rightarrow> tensor \<Rightarrow> tensor \<Rightarrow> 'tol \<Rightarrow> bool \<Rightarrow> bool \<times> string list) \<Rightarrow> 'tol \<Rightarrow> string set
     \<Rightarrow> trace_store \<Rightarrow> string \<Rightarrow> tensor \<Rightarrow> progress \<Rightarrow> error + progress" where
  "reader_run_node same repro_tolerance known_names ts name r pb =
     (if name \<in> known_names then
        (case ts_tensor ts (''inductor'', name) of
           None \<Rightarrow> Inl FileNotFoundError
         | Some inductor \<Rightarrow>
             (case ts_tensor ts (''float64'', name) of
                None \<Rightarrow> Inl FileNotFoundError
              | Some float64 \<Rightarrow>
                  (case same r inductor float64 repro_tolerance True of
                     (ok, msgs) \<Rightarrow>
                       (let pb1 = pb\<lparr>written := written pb @
                                     map (\<lambda>msg. ''DIVERGED at '' @ name @ '': '' @ msg) msgs\<rparr>
                        in if \<not> ok \<and> msgs = [] then Inl AssertionError
                           else Inr (pb1\<lparr>updates := Suc (updates pb1)\<rparr>)))))
      else Inr pb)"

text \<open>
  The divergence pass: the interpreter runs the nodes of the graph in order; a node is given
  by its name and the value the eager run computes for it.
\<close>

definition check_divergence ::
  "(tensor \<Rightarrow> tensor \<Rightarrow> tensor \<Rightarrow> 'tol \<Rightarrow> bool \<Rightarrow> bool \<times> string list) \<Rightarrow> 'tol \<Rightarrow> string set
     \<Rightarrow> trace_store \<Rightarrow> (string \<times> tensor) list \<Rightarrow> error + progress" where
  "check_divergence same repro_tolerance known_names ts nodes =
     run_hooks (reader_run_node same repro_tolerance known_names ts) nodes
       \<lparr>written = [], updates = 0\<rparr>"

text \<open>
  The determinism pass: a second run of the compiled graph under \<open>check_hook\<close>.
\<close>

definition check_deterministic ::
  "(meta_field \<Rightarrow> string) \<Rightarrow> trace_store \<Rightarrow> (string \<times> tensor) list \<Rightarrow> error + progress" where
  "check_deterministic fmt ts second_run =
     run_hooks (check_hook fmt ts) second_run \<lparr>written = [], updates = 0\<rparr>"

section \<open>Notions used to state the properties\<close>

text \<open>
  The device an \<open>InputWriter\<close> records for the storage of a tensor: the device of the
  storage, or the device of the tensor (the hint) when the storage is on \<open>meta\<close>; and the
  hash it records.
\<close>

definition written_device :: "tensor \<Rightarrow> device" where
  "written_device t =
     (if dev_type (st_device (t_storage t)) = ''meta'' then t_device t
      else st_device (t_storage t))"

definition written_hash :: "(storage \<Rightarrow> string) option \<Rightarrow> storage \<Rightarrow> string option" where
  "written_hash save_dir s =
     (case save_dir of
        None \<Rightarrow> None
      | Some write \<Rightarrow>
          (if dev_type (st_device s) \<noteq> ''meta'' then Some (write s) else None))"

fun is_storage_line :: "line \<Rightarrow> bool" where
  "is_storage_line (StorageLine v h n dev hint) = True"
| "is_storage_line _ = False"

fun allocates :: "nat \<Rightarrow> line \<Rightarrow> bool" where
  "allocates v (StorageLine v' h n dev hint) = (v = v')"
| "allocates v _ = False"

definition value_lines :: "line list \<Rightarrow> line list" where
  "value_lines ls = filter (\<lambda>l. \<not> is_storage_line l) ls"

text \<open>
  A script is scoped over the variables \<open>D\<close> when every storage line binds a new variable
  and every tensor line reads a variable of \<open>D\<close> or of an earlier storage line.
\<close>

fun scoped :: "nat set \<Rightarrow> line list \<Rightarrow> bool" where
  "scoped D [] = True"
| "scoped D (StorageLine v h n dev hint # ls) = (v \<notin> D \<and> scoped (insert v D) ls)"
| "scoped D (TensorLine v shape stride off dt md name # ls) = (v \<in> D \<and> scoped D ls)"
| "scoped D (SymintLine val name # ls) = scoped D ls"

fun storage_names :: "line list \<Rightarrow> nat set" where
  "storage_names [] = {}"
| "storage_names (StorageLine v h n dev hint # ls) = insert v (storage_names ls)"
| "storage_names (_ # ls) = storage_names ls"

text \<open>
  The value a line other than a storage line appends to \<open>args\<close>, given the final
  environment.
\<close>

fun value_of :: "(nat \<rightharpoonup> storage) \<Rightarrow> line \<Rightarrow> arg" where
  "value_of env (TensorLine v shape stride off dt md name) =
     PTensor \<lparr> t_storage = the (env v), t_shape = shape,
               t_stride = stride_or_default stride shape,
               t_storage_offset = storage_offset_or_default off,
               t_dtype = dtype_or_default dt,
               t_device = st_device (the (env v)),
               t_metadata = md \<rparr>"
| "value_of env (SymintLine val name) = PInt val"
| "value_of env (StorageLine v h n dev hint) = POther"

text \<open>
  The line \<open>InputWriter.tensor\<close> appends for a tensor whose storage is \<open>buf<v>\<close>, and the
  line of a session's argument under the final \<open>seen_storages\<close>.
\<close>

definition tensor_line :: "nat \<Rightarrow> string \<Rightarrow> tensor \<Rightarrow> line" where
  "tensor_line v name t =
     TensorLine v (t_shape t)
       (if t_stride t = make_contiguous_strides_for (t_shape t) then None else Some (t_stride t))
       (if t_storage_offset t = 0 then None else Some (t_storage_offset t))
       (if t_dtype t = Float32 then None else Some (t_dtype t))
       (t_metadata t) name"

definition arg_line :: "(nat \<rightharpoonup> nat) \<Rightarrow> string \<times> arg \<Rightarrow> line" where
  "arg_line seen na =
     (case snd na of
        PInt i \<Rightarrow> SymintLine i (fst na)
      | PSymInt hint \<Rightarrow> SymintLine hint (fst na)
      | PTensor t \<Rightarrow> tensor_line (the (seen (st_id (t_storage t)))) (fst na) t
      | POther \<Rightarrow> SymintLine 0 (fst na))"

text \<open>
  Writing a session with a fresh writer and replaying the lines with a fresh reader.
\<close>

definition roundtrip ::
  "(storage \<Rightarrow> string) option \<Rightarrow> (string \<rightharpoonup> storage) option \<Rightarrow> (string \<times> arg) list
     \<Rightarrow> error + arg list" where
  "roundtrip wstore rstore nargs =
     (case write_args (new_input_writer wstore) nargs of
        Inl e \<Rightarrow> Inl e
      | Inr w \<Rightarrow> replay rstore (w_lines w))"

text \<open>
  The tensors of a session, and the sessions in which a storage is one object: views with
  the same storage identity have the same storage and are written with the same device, and
  a tensor whose storage is not on \<open>meta\<close> is on the device of its storage.
\<close>

fun tensors_of :: "(string \<times> arg) list \<Rightarrow> tensor list" where
  "tensors_of [] = []"
| "tensors_of ((n, PTensor t) # rest) = t # tensors_of rest"
| "tensors_of (_ # rest) = tensors_of rest"

definition consistent :: "tensor list \<Rightarrow> bool" where
  "consistent ts =
     ((\<forall>t \<in> set ts. dev_type (st_device (t_storage t)) \<noteq> ''meta''
                       \<longrightarrow> t_device t = st_device (t_storage t)) \<and>
      (\<forall>t1 \<in> set ts. \<forall>t2 \<in> set ts.
          st_id (t_storage t1) = st_id (t_storage t2)
            \<longrightarrow> t_storage t1 = t_storage t2 \<and> written_device t1 = written_device t2))"

text \<open>
  What the round trip of one argument has to give: the integer (the hint of a symbolic
  integer), or a tensor with the shape, stride, storage offset, dtype and metadata of the
  original, on the stored storage when the reader's store holds the written hash and on a
  storage synthesized on the device of the original otherwise.
\<close>

definition reconstructs ::
  "(storage \<Rightarrow> string) option \<Rightarrow> (string \<rightharpoonup> storage) option \<Rightarrow> arg \<Rightarrow> arg \<Rightarrow> bool" where
  "reconstructs wstore rstore a a' =
     (case a of
        PInt i \<Rightarrow> a' = PInt i
      | PSymInt hint \<Rightarrow> a' = PInt hint
      | PTensor t \<Rightarrow>
          (case a' of
             PTensor t' \<Rightarrow>
               t_shape t' = t_shape t \<and> t_stride t' = t_stride t \<and>
               t_storage_offset t' = t_storage_offset t \<and> t_dtype t' = t_dtype t \<and>
               t_metadata t' = t_metadata t \<and>
               (case read_storage rstore (written_hash wstore (t_storage t)) of
                  Some s \<Rightarrow> t_storage t' = s \<and> t_device t' = st_device s
                | None \<Rightarrow> t_device t' = t_device t \<and>
                           (\<exists>dt n. st_content (t_storage t') = Synthesized dt n))
           | _ \<Rightarrow> False)
      | POther \<Rightarrow> False)"

text \<open>
  The lines the divergence pass writes for one node.
\<close>

definition node_report ::
  "(tensor \<Rightarrow> tensor \<Rightarrow> tensor \<Rightarrow> 'tol \<Rightarrow> bool \<Rightarrow> bool \<times> string list) \<Rightarrow> 'tol \<Rightarrow> string set
     \<Rightarrow> trace_store \<Rightarrow> string \<times> tensor \<Rightarrow> string list" where
  "node_report same repro_tolerance known_names ts node =
     (case node of (name, r) \<Rightarrow>
        (if name \<in> known_names then
           (case (ts_tensor ts (''inductor'', name), ts_tensor ts (''float64'', name)) of
              (Some inductor, Some float64) \<Rightarrow>
                map (\<lambda>msg. ''DIVERGED at '' @ name @ '': '' @ msg)
                    (snd (same r inductor float64 repro_tolerance True))
            | _ \<Rightarrow> [])
         else []))"

definition agrees ::
  "(tensor \<Rightarrow> tensor \<Rightarrow> tensor \<Rightarrow> 'tol \<Rightarrow> bool \<Rightarrow> bool \<times> string list) \<Rightarrow> 'tol \<Rightarrow> string set
     \<Rightarrow> trace_store \<Rightarrow> string \<times> tensor \<Rightarrow> bool" where
  "agrees same repro_tolerance known_names ts node =
     (case node of (name, r) \<Rightarrow>
        (name \<in> known_names \<longrightarrow>
           (case (ts_tensor ts (''inductor'', name), ts_tensor ts (''float64'', name)) of
              (Some inductor, Some float64) \<Rightarrow>
                same r inductor float64 repro_tolerance True = (True, [])
            | _ \<Rightarrow> False)))"

text \<open>
  The lines the determinism pass writes for one hooked intermediate.
\<close>

definition hook_report ::
  "(meta_field \<Rightarrow> string) \<Rightarrow> trace_store \<Rightarrow> string \<times> tensor \<Rightarrow> string list" where
  "hook_report fmt ts hooked =
     (case hooked of (name, val) \<Rightarrow>
        (case ts_meta ts (''inductor'', name) of
           None \<Rightarrow> []
         | Some meta2 \<Rightarrow>
             (case compare_tuples fmt (compute_tensor_metadata val) meta2 of
                Inr (Some reason) \<Rightarrow>
                  [''NONDETERMINISTIC INDUCTOR at '' @ name @ '' ('' @ reason @ '')'']
              | _ \<Rightarrow> [])))"

text \<open>
  What holds of an \<open>InputWriter\<close> after any number of calls: its script is scoped, the
  variables of its storage lines are the numbers below the counter, and
  \<open>seen_storages\<close> maps into them.
\<close>

definition winv :: "input_writer \<Rightarrow> bool" where
  "winv w =
     (scoped {} (w_lines w) \<and>
      storage_names (w_lines w) = {..<w_storage_counter w} \<and>
      (\<forall>ident v. w_seen_storages w ident = Some v \<longrightarrow> v < w_storage_counter w))"

text \<open>
  What \<open>InputReader.storage\<close> gives for a hash and a device: the stored storage when the
  store holds the hash, a synthesized storage on the (default) device otherwise.
\<close>

definition fetched ::
  "(string \<rightharpoonup> storage) option \<Rightarrow> string option \<Rightarrow> device option \<Rightarrow> storage \<Rightarrow> bool" where
  "fetched rstore h dev s =
     (case read_storage rstore h of
        Some s' \<Rightarrow> s = s'
      | None \<Rightarrow> st_device s = device_or_default dev \<and> (\<exists>dt n. st_content s = Synthesized dt n))"

text \<open>
  The storage of a tensor is recorded by a writer when \<open>seen_storages\<close> has its variable
  and the script has the storage line of that variable with the hash, the length and the
  device of the tensor's storage.
\<close>

definition recorded :: "input_writer \<Rightarrow> tensor \<Rightarrow> bool" where
  "recorded w t =
     (\<exists>v hint. w_seen_storages w (st_id (t_storage t)) = Some v \<and>
        StorageLine v (written_hash (w_store w) (t_storage t)) (st_nbytes (t_storage t))
          (if written_device t = cpu then None else Some (written_device t)) hint
          \<in> set (w_lines w))"

text \<open>
  The counting side of the writer's bookkeeping: there are as many storage lines as the
  counter says and as many as storages seen, and no two storages share a variable.
\<close>

definition wcount :: "input_writer \<Rightarrow> bool" where
  "wcount w =
     (length (filter is_storage_line (w_lines w)) = w_storage_counter w \<and>
      finite (dom (w_seen_storages w)) \<and>
      card (dom (w_seen_storages w)) = w_storage_counter w \<and>
      (\<forall>i j v. w_seen_storages w i = Some v \<and> w_seen_storages w j = Some v \<longrightarrow> i = j))"

definition storage_ids :: "(string \<times> arg) list \<Rightarrow> nat set" where
  "storage_ids nargs = (\<lambda>t. st_id (t_storage t)) ` set (tensors_of nargs)"

section \<open>Concrete inputs\<close>

definition cuda0 :: device where
  "cuda0 = Device ''cuda'' (Some 0)"

definition host_storage :: storage where
  "host_storage = \<lparr> st_id = 7, st_device = cpu, st_nbytes = 24, st_content = Bytes (replicate 24 1) \<rparr>"

definition cuda_storage :: storage where
  "cuda_storage = \<lparr> st_id = 9, st_device = cuda0, st_nbytes = 24, st_content = Bytes (replicate 24 1) \<rparr>"

definition matrix :: tensor where
  "matrix = \<lparr> t_storage = host_storage, t_shape = [2, 3], t_stride = [3, 1],
              t_storage_offset = 0, t_dtype = Float32, t_device = cpu, t_metadata = [] \<rparr>"

definition column :: tensor where
  "column = \<lparr> t_storage = host_storage, t_shape = [2], t_stride = [3],
              t_storage_offset = 1, t_dtype = Float32, t_device = cpu, t_metadata = [] \<rparr>"

definition cuda_matrix :: tensor where
  "cuda_matrix = \<lparr> t_storage = cuda_storage, t_shape = [3, 2], t_stride = [1, 3],
                   t_storage_offset = 0, t_dtype = Float32, t_device = cuda0, t_metadata = [] \<rparr>"

definition content_hash :: "storage \<Rightarrow> string" where
  "content_hash s = ''h24''"

definition cuda_store :: "string \<rightharpoonup> storage" where
  "cuda_store = [''h24'' \<mapsto> cuda_storage]"

definition three_nodes :: graph_module where
  "three_nodes = \<lparr> placeholders = [''arg0_1''], num_nodes = 3, graph_name = ''forward_0'' \<rparr>"

text \<open>
  A backend that fails to compile, with a disk that is full (left) or not (right); and a
  backend whose compiled callable fails when it is called.
\<close>

definition failing_backend :: "error option \<Rightarrow> nat world" where
  "failing_backend disk =
     \<lparr> compiler_fn = (\<lambda>gm as. Inl (Raised ''LoweringException'')),
       accuracy_fails = (\<lambda>gm as. Inr False),
       from_tensor = (\<lambda>t. t),
       cuda_synchronize = None,
       makedirs_error = None,
       open_error = disk,
       copyfile_error = False,
       minify_error = None,
       write_storage = content_hash \<rparr>"

definition crashing_backend :: "bool \<Rightarrow> nat world" where
  "crashing_backend inaccurate =
     \<lparr> compiler_fn = (\<lambda>gm as. Inr (\<lambda>real. Inl (Raised ''IllegalMemoryAccess''))),
       accuracy_fails = (\<lambda>gm as. Inr inaccurate),
       from_tensor = (\<lambda>t. t),
       cuda_synchronize = None,
       makedirs_error = None,
       open_error = None,
       copyfile_error = False,
       minify_error = None,
       write_storage = content_hash \<rparr>"

definition aot :: "int \<Rightarrow> config" where
  "aot level = \<lparr> repro_after = Some ''aot'', repro_level = level \<rparr>"

text \<open>
  A process that exits with a given code and readable output, and one killed by a signal
  that leaves bytes that are not UTF-8; a comparison that fails on a shape and says so;
  the names of the metadata fields; and the traces of a chain of three nodes in which only
  the compiled value of the last node has another shape.
\<close>

definition exits :: "int \<Rightarrow> line list \<Rightarrow> process" where
  "exits code ls = \<lparr> returncode = code, stdout = Decodes ''out'', stderr = Decodes ''err'' \<rparr>"

definition crashes :: "line list \<Rightarrow> process" where
  "crashes ls = \<lparr> returncode = - 11, stdout = Undecodable, stderr = Decodes ''err'' \<rparr>"

definition same_shape :: "tensor \<Rightarrow> tensor \<Rightarrow> tensor \<Rightarrow> nat \<Rightarrow> bool \<Rightarrow> bool \<times> string list" where
  "same_shape r res fp64 tol equal_nan =
     (if t_shape r = t_shape res \<and> t_shape r = t_shape fp64 then (True, [])
      else (False, [''shape mismatch'']))"

fun field_name :: "meta_field \<Rightarrow> string" where
  "field_name (MShape s) = ''shape''"
| "field_name (MDtype d) = ''dtype''"
| "field_name (MStride s) = ''stride''"
| "field_name (MDevice d) = ''device''"

definition chain_traces :: trace_store where
  "chain_traces =
     fold (\<lambda>(path, val) ts. write_tensor ts path val)
       [((''inductor'', ''a''), matrix), ((''float64'', ''a''), matrix),
        ((''inductor'', ''b''), matrix), ((''float64'', ''b''), matrix),
        ((''inductor'', ''c''), column), ((''float64'', ''c''), matrix)]
       \<lparr> ts_meta = Map.empty, ts_tensor = Map.empty \<rparr>"

text \<open>
  A session of two views of one storage with a symbolic integer between them.
\<close>

definition shared_session :: "(string \<times> arg) list" where
  "shared_session = [(''x'', PTensor matrix), (''n'', PSymInt 3), (''y'', PTensor column)]"

section \<open>Properties\<close>

subsection \<open>InputReader.storage\<close>

text \<open>
  C10. When the store holds the requested hash and the stored storage is on another device
  than the instruction says, \<open>InputReader.storage\<close> returns the stored storage as it is,
  the only trace being the device-mismatch warning; a tensor replayed on that storage is on
  the storage's device, not on the device of the script.
\<close>

theorem stored_device_wins:
  assumes "r_store rd = Some m" and "m h = Some s" and "device_or_default device \<noteq> st_device s"
  shows "reader_storage rd (Some h) nbytes device dtype_hint
           = (s, rd\<lparr>r_pbar := tick (r_pbar rd),
                    r_log := r_log rd @ [DeviceMismatch (device_or_default device) (st_device s)]\<rparr>)
         \<and> t_device (fst (reader_tensor rd' s shape stride off dt md)) = st_device s"
  using assms by (simp add: reader_storage_def read_storage_def reader_tensor_def Let_def)

theorem stored_device_wins_witness:
  "reader_storage (new_input_reader (Some cuda_store) None) (Some ''h24'') 24 None None
     = (cuda_storage,
        \<lparr> r_store = Some cuda_store, r_args = [], r_pbar = None,
          r_log = [DeviceMismatch cpu cuda0], r_fresh = 0 \<rparr>)
   \<and> t_device (fst (reader_tensor (new_input_reader (Some cuda_store) None) cuda_storage
                       [2, 3] None None None [])) = cuda0"
  using stored_device_wins [of "new_input_reader (Some cuda_store) None" cuda_store "''h24''"
          cuda_storage None 24 None "new_input_reader (Some cuda_store) None" "[2, 3]" None None None "[]"]
  by (simp add: new_input_reader_def cuda_store_def cuda_storage_def device_or_default_def
        cpu_def cuda0_def tick_def)




subsection \<open>The capture wrapper\<close>

lemmas writer_simps = new_input_writer_def writer_tensor_def writer_storage_def writer_symint_def
  dtype_or_default_def device_or_default_def stride_or_default_def storage_offset_or_default_def
  cpu_def Let_def

lemma written_matrix:
  "save_graph_repro wd three_nodes [PTensor matrix] compiler_name True
     = Inr [StorageLine 0 (Some (write_storage wd host_storage)) 24 None None,
            TensorLine 0 [2, 3] None None None [] ''arg0_1'']"
  by (simp add: save_graph_repro_def generate_compiler_repro_string_def three_nodes_def
        matrix_def host_storage_def writer_simps)

lemma dump_state_matrix:
  "makedirs_error wd = None \<Longrightarrow> open_error wd = None \<Longrightarrow> \<not> copyfile_error wd \<Longrightarrow>
   dump_compiler_graph_state wd three_nodes [PTensor matrix] compiler_name
     = ([Logged (WritingCheckpoint 3),
         Checkpoint 3 compiler_name ''run''
           [StorageLine 0 (Some (write_storage wd host_storage)) 24 None None,
            TensorLine 0 [2, 3] None None None [] ''arg0_1''],
         CopiedRepro, Logged CopyingRepro], Inr ())"
  by (simp add: dump_compiler_graph_state_def written_matrix) (simp add: three_nodes_def)

lemma dump_minify_matrix:
  "makedirs_error wd = None \<Longrightarrow> minify_error wd = None \<Longrightarrow>
   dump_to_minify wd three_nodes [PTensor matrix] compiler_name
     = ([MinifierLauncher compiler_name
           [StorageLine 0 (Some (write_storage wd host_storage)) 24 None None,
            TensorLine 0 [2, 3] None None None [] ''arg0_1'']], Inr ())"
  by (simp add: dump_to_minify_def written_matrix)

text \<open>
  C8, as the code has it. At level 4 the deferred call raises \<open>NotImplementedError\<close> when
  the compiler is not \<open>inductor\<close>, before the accuracy check and with nothing written; when
  the accuracy check fails and the two checkpoint dumps return, it raises \<open>AccuracyError\<close>
  after the warning and the dumps, in that order; a dump that raises is not caught, and its
  error is raised in place of the \<open>AccuracyError\<close>; when the accuracy check passes, the
  call returns what the compiled callable returns.
\<close>

theorem accuracy_mode:
  assumes "repro_after cfg = Some ''aot''" and "repro_level cfg = 4"
  shows "(compiler_name \<noteq> ''inductor'' \<longrightarrow>
            deferred_for_real_inputs wd cfg compiler_name gm example_inputs inner_compiled_fn real_inputs
              = ([], Inl (NotImplementedError ''Accuracy minification is supported for inductor only'')))
       \<and> (compiler_name = ''inductor'' \<and> accuracy_fails wd gm real_inputs = Inr True
            \<and> dump_compiler_graph_state wd gm real_inputs ''inductor_accuracy'' = (fx1, Inr ())
            \<and> dump_to_minify wd gm real_inputs ''inductor_accuracy'' = (fx2, Inr ()) \<longrightarrow>
            deferred_for_real_inputs wd cfg compiler_name gm example_inputs inner_compiled_fn real_inputs
              = (Logged (AccuracyFailed (graph_name gm)) # fx1 @ fx2,
                 Inl (AccuracyError ''Bad accuracy detected'')))
       \<and> (compiler_name = ''inductor'' \<and> accuracy_fails wd gm real_inputs = Inr True
            \<and> dump_compiler_graph_state wd gm real_inputs ''inductor_accuracy'' = (fx1, Inl e) \<longrightarrow>
            deferred_for_real_inputs wd cfg compiler_name gm example_inputs inner_compiled_fn real_inputs
              = (Logged (AccuracyFailed (graph_name gm)) # fx1, Inl e))
       \<and> (compiler_name = ''inductor'' \<and> accuracy_fails wd gm real_inputs = Inr True
            \<and> dump_compiler_graph_state wd gm real_inputs ''inductor_accuracy'' = (fx1, Inr ())
            \<and> dump_to_minify wd gm real_inputs ''inductor_accuracy'' = (fx2, Inl e) \<longrightarrow>
            deferred_for_real_inputs wd cfg compiler_name gm example_inputs inner_compiled_fn real_inputs
              = (Logged (AccuracyFailed (graph_name gm)) # fx1 @ fx2, Inl e))
       \<and> (compiler_name = ''inductor'' \<and> accuracy_fails wd gm real_inputs = Inl e \<longrightarrow>
            deferred_for_real_inputs wd cfg compiler_name gm example_inputs inner_compiled_fn real_inputs
              = ([], Inl e))
       \<and> (compiler_name = ''inductor'' \<and> accuracy_fails wd gm real_inputs = Inr False \<longrightarrow>
            deferred_for_real_inputs wd cfg compiler_name gm example_inputs inner_compiled_fn real_inputs
              = ([], inner_compiled_fn real_inputs))"
  using assms
  by (simp add: deferred_for_real_inputs_def inner_debug_fn_def Let_def)

theorem accuracy_mode_witness:
  "deferred_for_real_inputs (crashing_backend True) (aot 4) ''nvfuser'' three_nodes [PTensor matrix]
       (\<lambda>real. Inr 42) [PTensor matrix]
     = ([], Inl (NotImplementedError ''Accuracy minification is supported for inductor only''))
   \<and> deferred_for_real_inputs (crashing_backend True) (aot 4) ''inductor'' three_nodes [PTensor matrix]
       (\<lambda>real. Inr 42) [PTensor matrix]
     = ([Logged (AccuracyFailed ''forward_0''),
         Logged (WritingCheckpoint 3),
         Checkpoint 3 ''inductor_accuracy'' ''run''
           [StorageLine 0 (Some ''h24'') 24 None None,
            TensorLine 0 [2, 3] None None None [] ''arg0_1''],
         CopiedRepro, Logged CopyingRepro,
         MinifierLauncher ''inductor_accuracy''
           [StorageLine 0 (Some ''h24'') 24 None None,
            TensorLine 0 [2, 3] None None None [] ''arg0_1'']],
        Inl (AccuracyError ''Bad accuracy detected''))
   \<and> deferred_for_real_inputs ((crashing_backend True)\<lparr>minify_error := Some (Raised ''OSError'')\<rparr>)
       (aot 4) ''inductor'' three_nodes [PTensor matrix] (\<lambda>real. Inr 42) [PTensor matrix]
     = ([Logged (AccuracyFailed ''forward_0''),
         Logged (WritingCheckpoint 3),
         Checkpoint 3 ''inductor_accuracy'' ''run''
           [StorageLine 0 (Some ''h24'') 24 None None,
            TensorLine 0 [2, 3] None None None [] ''arg0_1''],
         CopiedRepro, Logged CopyingRepro],
        Inl (Raised ''OSError''))
   \<and> deferred_for_real_inputs (crashing_backend False) (aot 4) ''inductor'' three_nodes [PTensor matrix]
       (\<lambda>real. Inr 42) [PTensor matrix]
     = ([], Inr 42)"
proof -
  let ?ls = "[StorageLine 0 (Some ''h24'') 24 None None,
              TensorLine 0 [2, 3] None None None [] ''arg0_1'']"
  let ?fx1 = "[Logged (WritingCheckpoint 3), Checkpoint 3 ''inductor_accuracy'' ''run'' ?ls,
               CopiedRepro, Logged CopyingRepro]"
  let ?fx2 = "[MinifierLauncher ''inductor_accuracy'' ?ls]"
  let ?broken = "(crashing_backend True)\<lparr>minify_error := Some (Raised ''OSError'')\<rparr>"
  have after: "repro_after (aot 4) = Some ''aot''" and level: "repro_level (aot 4) = 4"
    by (simp_all add: aot_def)
  have d1: "dump_compiler_graph_state (crashing_backend True) three_nodes [PTensor matrix]
              ''inductor_accuracy'' = (?fx1, Inr ())"
    by (simp add: dump_state_matrix crashing_backend_def content_hash_def)
  have d2: "dump_to_minify (crashing_backend True) three_nodes [PTensor matrix]
              ''inductor_accuracy'' = (?fx2, Inr ())"
    by (simp add: dump_minify_matrix crashing_backend_def content_hash_def)
  have d3: "dump_compiler_graph_state ?broken three_nodes [PTensor matrix]
              ''inductor_accuracy'' = (?fx1, Inr ())"
    by (simp add: dump_state_matrix crashing_backend_def content_hash_def)
  have d4: "dump_to_minify ?broken three_nodes [PTensor matrix]
              ''inductor_accuracy'' = ([], Inl (Raised ''OSError''))"
    by (simp add: dump_to_minify_def written_matrix crashing_backend_def)
  have acc: "accuracy_fails (crashing_backend True) three_nodes [PTensor matrix] = Inr True"
    and acc': "accuracy_fails ?broken three_nodes [PTensor matrix] = Inr True"
    and ok: "accuracy_fails (crashing_backend False) three_nodes [PTensor matrix] = Inr False"
    by (simp_all add: crashing_backend_def)
  have name: "graph_name three_nodes = ''forward_0''"
    by (simp add: three_nodes_def)
  note unsupported = accuracy_mode [OF after level, where compiler_name = "''nvfuser''"
      and wd = "crashing_backend True" and gm = three_nodes, THEN conjunct1]
  note inaccurate = accuracy_mode [OF after level, where compiler_name = "''inductor''"
      and wd = "crashing_backend True" and gm = three_nodes and real_inputs = "[PTensor matrix]"
      and ?fx1.0 = ?fx1 and ?fx2.0 = ?fx2, THEN conjunct2, THEN conjunct1]
  note masked = accuracy_mode [OF after level, where compiler_name = "''inductor''"
      and wd = ?broken and gm = three_nodes and real_inputs = "[PTensor matrix]"
      and ?fx1.0 = ?fx1 and ?fx2.0 = "[]" and e = "Raised ''OSError''",
      THEN conjunct2, THEN conjunct2, THEN conjunct2, THEN conjunct1]
  note accurate = accuracy_mode [OF after level, where compiler_name = "''inductor''"
      and wd = "crashing_backend False" and gm = three_nodes and real_inputs = "[PTensor matrix]",
      THEN conjunct2, THEN conjunct2, THEN conjunct2, THEN conjunct2, THEN conjunct2]
  have 1: "deferred_for_real_inputs (crashing_backend True) (aot 4) ''nvfuser'' three_nodes
             [PTensor matrix] (\<lambda>real. Inr 42) [PTensor matrix]
     = ([], Inl (NotImplementedError ''Accuracy minification is supported for inductor only''))"
    using unsupported by simp
  have 2: "deferred_for_real_inputs (crashing_backend True) (aot 4) ''inductor'' three_nodes
             [PTensor matrix] (\<lambda>real. Inr 42) [PTensor matrix]
     = (Logged (AccuracyFailed ''forward_0'') # ?fx1 @ ?fx2,
        Inl (AccuracyError ''Bad accuracy detected''))"
    using inaccurate d1 d2 acc name by simp
  have 3: "deferred_for_real_inputs ?broken (aot 4) ''inductor'' three_nodes
             [PTensor matrix] (\<lambda>real. Inr 42) [PTensor matrix]
     = (Logged (AccuracyFailed ''forward_0'') # ?fx1 @ [], Inl (Raised ''OSError''))"
    using masked d3 d4 acc' name by simp
  have 4: "deferred_for_real_inputs (crashing_backend False) (aot 4) ''inductor'' three_nodes
             [PTensor matrix] (\<lambda>real. Inr 42) [PTensor matrix] = ([], Inr 42)"
    using accurate ok by simp
  from 1 2 3 4 show ?thesis by simp
qed

text \<open>
  C8 as stated fails: at level 4 with \<open>inductor\<close> and a failed accuracy check, \<open>open\<close> of
  the checkpoint file raises \<open>OSError\<close> (a full disk) inside
  \<open>dump_compiler_graph_state\<close>, and the deferred call raises that \<open>OSError\<close>, not
  \<open>AccuracyError\<close>.
\<close>

theorem failed_dump_masks_accuracy_error:
  "accuracy_fails ((crashing_backend True)\<lparr>open_error := Some (Raised ''OSError'')\<rparr>)
     three_nodes [PTensor matrix] = Inr True
   \<and> deferred_for_real_inputs ((crashing_backend True)\<lparr>open_error := Some (Raised ''OSError'')\<rparr>)
       (aot 4) ''inductor'' three_nodes [PTensor matrix] (\<lambda>real. Inr 42) [PTensor matrix]
     = ([Logged (AccuracyFailed ''forward_0''), Logged (WritingCheckpoint 3)],
        Inl (Raised ''OSError''))"
  by (simp add: deferred_for_real_inputs_def inner_debug_fn_def dump_compiler_graph_state_def
        crashing_backend_def aot_def three_nodes_def Let_def)

text \<open>
  C1, as the code has it. When the backend fails to compile, the wrapper raises the
  backend's error if the dump it makes for the level (level 1:
  \<open>dump_compiler_graph_state\<close>, level 2: \<open>dump_to_minify\<close>, otherwise none) returns. When
  the compiled callable fails, or the synchronization of the device after it does, the
  deferred call raises that error if the dump made at the level returns (levels 1 and 2
  after the failure, level 3 before the call); at level 4 the callable is called only with
  \<open>inductor\<close> and after the accuracy check has passed, and a failed check raises
  \<open>AccuracyError\<close> if its two dumps return. In the wrapper and in the deferred call alike,
  a dump that raises is not caught: its error is the one raised, and nothing is logged
  after it.
\<close>

theorem capture_reraises:
  "(repro_after cfg \<in> {Some ''dynamo'', Some ''aot'', None}
      \<and> compiler_fn wd gm example_inputs = Inl e \<longrightarrow>
      (repro_after cfg \<noteq> Some ''aot'' \<longrightarrow>
         debug_wrapper wd cfg compiler_name gm example_inputs = ([], Inl e))
    \<and> (repro_after cfg = Some ''aot'' \<and> repro_level cfg \<noteq> 1 \<and> repro_level cfg \<noteq> 2 \<longrightarrow>
         debug_wrapper wd cfg compiler_name gm example_inputs = ([Logged CompilerError], Inl e))
    \<and> (repro_after cfg = Some ''aot'' \<and> repro_level cfg = 1 \<longrightarrow>
         (case dump_compiler_graph_state wd gm example_inputs compiler_name of
            (fx, Inl e') \<Rightarrow>
              debug_wrapper wd cfg compiler_name gm example_inputs = (fx, Inl e')
          | (fx, Inr u) \<Rightarrow>
              debug_wrapper wd cfg compiler_name gm example_inputs
                = (fx @ [Logged CompilerError], Inl e)))
    \<and> (repro_after cfg = Some ''aot'' \<and> repro_level cfg = 2 \<longrightarrow>
         (case dump_to_minify wd gm example_inputs compiler_name of
            (fx, Inl e') \<Rightarrow>
              debug_wrapper wd cfg compiler_name gm example_inputs = (fx, Inl e')
          | (fx, Inr u) \<Rightarrow>
              debug_wrapper wd cfg compiler_name gm example_inputs
                = (fx @ [Logged CompilerError], Inl e))))
 \<and> (inner_compiled_fn real_inputs = Inl e
      \<and> copy_tensor_attrs
          = map (\<lambda>x. case x of PTensor t \<Rightarrow> PTensor (from_tensor wd t) | _ \<Rightarrow> x) real_inputs \<longrightarrow>
      (repro_after cfg \<noteq> Some ''aot'' \<longrightarrow>
         deferred_for_real_inputs wd cfg compiler_name gm example_inputs inner_compiled_fn
           real_inputs = ([], Inl e))
    \<and> (repro_after cfg = Some ''aot'' \<and> repro_level cfg \<notin> {1, 2, 3, 4} \<longrightarrow>
         deferred_for_real_inputs wd cfg compiler_name gm example_inputs inner_compiled_fn
           real_inputs = ([], Inl e))
    \<and> (repro_after cfg = Some ''aot'' \<and> repro_level cfg = 1 \<longrightarrow>
         (case dump_compiler_graph_state wd gm copy_tensor_attrs compiler_name of
            (fx, Inl e') \<Rightarrow>
              deferred_for_real_inputs wd cfg compiler_name gm example_inputs inner_compiled_fn
                real_inputs = (fx, Inl e')
          | (fx, Inr u) \<Rightarrow>
              deferred_for_real_inputs wd cfg compiler_name gm example_inputs inner_compiled_fn
                real_inputs = (fx, Inl e)))
    \<and> (repro_after cfg = Some ''aot'' \<and> repro_level cfg = 2 \<longrightarrow>
         (case dump_to_minify wd gm copy_tensor_attrs compiler_name of
            (fx, Inl e') \<Rightarrow>
              deferred_for_real_inputs wd cfg compiler_name gm example_inputs inner_compiled_fn
                real_inputs = (fx, Inl e')
          | (fx, Inr u) \<Rightarrow>
              deferred_for_real_inputs wd cfg compiler_name gm example_inputs inner_compiled_fn
                real_inputs = (fx, Inl e)))
    \<and> (repro_after cfg = Some ''aot'' \<and> repro_level cfg = 3 \<longrightarrow>
         (case dump_to_minify wd gm real_inputs compiler_name of
            (fx, Inl e') \<Rightarrow>
              deferred_for_real_inputs wd cfg compiler_name gm example_inputs inner_compiled_fn
                real_inputs = (fx, Inl e')
          | (fx, Inr u) \<Rightarrow>
              deferred_for_real_inputs wd cfg compiler_name gm example_inputs inner_compiled_fn
                real_inputs = (fx, Inl e)))
    \<and> (repro_after cfg = Some ''aot'' \<and> repro_level cfg = 4 \<and> compiler_name = ''inductor''
          \<and> accuracy_fails wd gm real_inputs = Inr False \<longrightarrow>
         deferred_for_real_inputs wd cfg compiler_name gm example_inputs inner_compiled_fn
           real_inputs = ([], Inl e))
    \<and> (repro_after cfg = Some ''aot'' \<and> repro_level cfg = 4 \<and> compiler_name = ''inductor''
          \<and> accuracy_fails wd gm real_inputs = Inr True \<longrightarrow>
         (case dump_compiler_graph_state wd gm real_inputs (compiler_name @ ''_accuracy'') of
            (fx1, Inl e') \<Rightarrow>
              deferred_for_real_inputs wd cfg compiler_name gm example_inputs inner_compiled_fn
                real_inputs = (Logged (AccuracyFailed (graph_name gm)) # fx1, Inl e')
          | (fx1, Inr u) \<Rightarrow>
              (case dump_to_minify wd gm real_inputs (compiler_name @ ''_accuracy'') of
                 (fx2, Inl e') \<Rightarrow>
                   deferred_for_real_inputs wd cfg compiler_name gm example_inputs
                     inner_compiled_fn real_inputs
                     = (Logged (AccuracyFailed (graph_name gm)) # fx1 @ fx2, Inl e')
               | (fx2, Inr u') \<Rightarrow>
                   deferred_for_real_inputs wd cfg compiler_name gm example_inputs
                     inner_compiled_fn real_inputs
                     = (Logged (AccuracyFailed (graph_name gm)) # fx1 @ fx2,
                        Inl (AccuracyError ''Bad accuracy detected''))))))
 \<and> (inner_compiled_fn real_inputs = Inr out \<and> list_ex is_cuda example_inputs
      \<and> cuda_synchronize wd = Some e \<and> repro_after cfg = Some ''aot''
      \<and> copy_tensor_attrs
          = map (\<lambda>x. case x of PTensor t \<Rightarrow> PTensor (from_tensor wd t) | _ \<Rightarrow> x) real_inputs \<longrightarrow>
      (repro_level cfg \<notin> {1, 2, 3, 4} \<longrightarrow>
         deferred_for_real_inputs wd cfg compiler_name gm example_inputs inner_compiled_fn
           real_inputs = ([], Inl e))
    \<and> (repro_level cfg = 1 \<longrightarrow>
         (case dump_compiler_graph_state wd gm copy_tensor_attrs compiler_name of
            (fx, Inl e') \<Rightarrow>
              deferred_for_real_inputs wd cfg compiler_name gm example_inputs inner_compiled_fn
                real_inputs = (fx, Inl e')
          | (fx, Inr u) \<Rightarrow>
              deferred_for_real_inputs wd cfg compiler_name gm example_inputs inner_compiled_fn
                real_inputs = (fx, Inl e)))
    \<and> (repro_level cfg = 2 \<longrightarrow>
         (case dump_to_minify wd gm copy_tensor_attrs compiler_name of
            (fx, Inl e') \<Rightarrow>
              deferred_for_real_inputs wd cfg compiler_name gm example_inputs inner_compiled_fn
                real_inputs = (fx, Inl e')
          | (fx, Inr u) \<Rightarrow>
              deferred_for_real_inputs wd cfg compiler_name gm example_inputs inner_compiled_fn
                real_inputs = (fx, Inl e)))
    \<and> (repro_level cfg = 3 \<longrightarrow>
         (case dump_to_minify wd gm real_inputs compiler_name of
            (fx, Inl e') \<Rightarrow>
              deferred_for_real_inputs wd cfg compiler_name gm example_inputs inner_compiled_fn
                real_inputs = (fx, Inl e')
          | (fx, Inr u) \<Rightarrow>
              deferred_for_real_inputs wd cfg compiler_name gm example_inputs inner_compiled_fn
                real_inputs = (fx, Inl e))))"
  apply (intro conjI impI)
                 apply (auto simp add: debug_wrapper_def split: prod.splits sum.splits)[4]
             apply (auto simp add: deferred_for_real_inputs_def inner_debug_fn_def Let_def
                         split: prod.splits sum.splits)
  done

theorem capture_reraises_witness:
  "debug_wrapper (failing_backend None) (aot 1) ''inductor'' three_nodes [PTensor matrix]
     = ([Logged (WritingCheckpoint 3),
         Checkpoint 3 ''inductor'' ''run''
           [StorageLine 0 (Some ''h24'') 24 None None,
            TensorLine 0 [2, 3] None None None [] ''arg0_1''],
         CopiedRepro, Logged CopyingRepro, Logged CompilerError],
        Inl (Raised ''LoweringException''))
   \<and> debug_wrapper (failing_backend (Some (Raised ''OSError''))) (aot 2) ''inductor'' three_nodes
        [PTensor matrix]
     = ([MinifierLauncher ''inductor''
           [StorageLine 0 (Some ''h24'') 24 None None,
            TensorLine 0 [2, 3] None None None [] ''arg0_1''],
         Logged CompilerError],
        Inl (Raised ''LoweringException''))
   \<and> debug_wrapper (failing_backend (Some (Raised ''OSError''))) (aot 1) ''inductor'' three_nodes
        [PTensor matrix]
     = ([Logged (WritingCheckpoint 3)], Inl (Raised ''OSError''))
   \<and> deferred_for_real_inputs (crashing_backend False) (aot 2) ''inductor'' three_nodes
        [PTensor matrix] (\<lambda>real. Inl (Raised ''IllegalMemoryAccess'')) [PTensor matrix]
     = ([MinifierLauncher ''inductor''
           [StorageLine 0 (Some ''h24'') 24 None None,
            TensorLine 0 [2, 3] None None None [] ''arg0_1'']],
        Inl (Raised ''IllegalMemoryAccess''))
   \<and> deferred_for_real_inputs ((crashing_backend False)\<lparr>open_error := Some (Raised ''OSError'')\<rparr>)
        (aot 1) ''inductor'' three_nodes
        [PTensor matrix] (\<lambda>real. Inl (Raised ''IllegalMemoryAccess'')) [PTensor matrix]
     = ([Logged (WritingCheckpoint 3)], Inl (Raised ''OSError''))
   \<and> deferred_for_real_inputs (crashing_backend True) (aot 4) ''inductor'' three_nodes
        [PTensor matrix] (\<lambda>real. Inl (Raised ''IllegalMemoryAccess'')) [PTensor matrix]
     = ([Logged (AccuracyFailed ''forward_0''),
         Logged (WritingCheckpoint 3),
         Checkpoint 3 ''inductor_accuracy'' ''run''
           [StorageLine 0 (Some ''h24'') 24 None None,
            TensorLine 0 [2, 3] None None None [] ''arg0_1''],
         CopiedRepro, Logged CopyingRepro,
         MinifierLauncher ''inductor_accuracy''
           [StorageLine 0 (Some ''h24'') 24 None None,
            TensorLine 0 [2, 3] None None None [] ''arg0_1'']],
        Inl (AccuracyError ''Bad accuracy detected''))
   \<and> deferred_for_real_inputs
        ((crashing_backend False)\<lparr>cuda_synchronize := Some (Raised ''IllegalMemoryAccess'')\<rparr>)
        (aot 2) ''inductor'' three_nodes
        [PTensor cuda_matrix] (\<lambda>real. Inr 42) [PTensor matrix]
     = ([MinifierLauncher ''inductor''
           [StorageLine 0 (Some ''h24'') 24 None None,
            TensorLine 0 [2, 3] None None None [] ''arg0_1'']],
        Inl (Raised ''IllegalMemoryAccess''))"
proof -
  let ?ls = "[StorageLine 0 (Some ''h24'') 24 None None,
              TensorLine 0 [2, 3] None None None [] ''arg0_1'']"
  let ?full = "failing_backend (Some (Raised ''OSError''))"
  let ?sync = "(crashing_backend False)\<lparr>cuda_synchronize := Some (Raised ''IllegalMemoryAccess'')\<rparr>"
  let ?full' = "(crashing_backend False)\<lparr>open_error := Some (Raised ''OSError'')\<rparr>"
  let ?boom = "\<lambda>real :: arg list. (Inl (Raised ''IllegalMemoryAccess'') :: error + nat)"
  have valid: "repro_after (aot n) \<in> {Some ''dynamo'', Some ''aot'', None}" for n
    by (simp add: aot_def)
  have fails: "compiler_fn (failing_backend d) three_nodes [PTensor matrix]
                 = Inl (Raised ''LoweringException'')" for d
    by (simp add: failing_backend_def)
  have boom: "?boom [PTensor matrix] = Inl (Raised ''IllegalMemoryAccess'')" by simp
  have copy: "[PTensor matrix]
                = map (\<lambda>x. case x of PTensor t \<Rightarrow> PTensor (from_tensor wd t) | _ \<Rightarrow> x)
                    [PTensor matrix]"
    if "from_tensor wd = (\<lambda>t. t)" for wd :: "nat world"
    using that by simp
  have copy1: "[PTensor matrix]
                = map (\<lambda>x. case x of PTensor t \<Rightarrow> PTensor (from_tensor (crashing_backend b) t)
                                | _ \<Rightarrow> x) [PTensor matrix]" for b
    by (rule copy) (simp add: crashing_backend_def)
  have copy2: "[PTensor matrix]
                = map (\<lambda>x. case x of PTensor t \<Rightarrow> PTensor (from_tensor ?full' t)
                                | _ \<Rightarrow> x) [PTensor matrix]"
    by (rule copy) (simp add: crashing_backend_def)
  have s1: "dump_compiler_graph_state (failing_backend None) three_nodes [PTensor matrix] name
              = ([Logged (WritingCheckpoint 3), Checkpoint 3 name ''run'' ?ls,
                  CopiedRepro, Logged CopyingRepro], Inr ())" for name
    by (simp add: dump_state_matrix failing_backend_def content_hash_def)
  have s2: "dump_compiler_graph_state (crashing_backend b) three_nodes [PTensor matrix] name
              = ([Logged (WritingCheckpoint 3), Checkpoint 3 name ''run'' ?ls,
                  CopiedRepro, Logged CopyingRepro], Inr ())" for name b
    by (simp add: dump_state_matrix crashing_backend_def content_hash_def)
  have m1: "dump_to_minify ?full three_nodes [PTensor matrix] name
              = ([MinifierLauncher name ?ls], Inr ())" for name
    by (simp add: dump_minify_matrix failing_backend_def content_hash_def)
  have m2: "dump_to_minify (crashing_backend b) three_nodes [PTensor matrix] name
              = ([MinifierLauncher name ?ls], Inr ())" for name b
    by (simp add: dump_minify_matrix crashing_backend_def content_hash_def)
  have f1: "dump_compiler_graph_state ?full three_nodes [PTensor matrix] name
              = ([Logged (WritingCheckpoint 3)], Inl (Raised ''OSError''))" for name
    by (simp add: dump_compiler_graph_state_def failing_backend_def three_nodes_def)
  have f2: "dump_compiler_graph_state ?full' three_nodes [PTensor matrix] name
              = ([Logged (WritingCheckpoint 3)], Inl (Raised ''OSError''))" for name
    by (simp add: dump_compiler_graph_state_def crashing_backend_def three_nodes_def)
  have acc: "accuracy_fails (crashing_backend True) three_nodes [PTensor matrix] = Inr True"
    by (simp add: crashing_backend_def)
  have name: "graph_name three_nodes = ''forward_0''"
    by (simp add: three_nodes_def)
  note compile = capture_reraises [where cfg = "aot 1" and wd = "failing_backend None"
      and gm = three_nodes and example_inputs = "[PTensor matrix]"
      and e = "Raised ''LoweringException''" and compiler_name = "''inductor''",
      THEN conjunct1, THEN mp, OF conjI [OF valid fails]]
  note compile2 = capture_reraises [where cfg = "aot 2" and wd = ?full
      and gm = three_nodes and example_inputs = "[PTensor matrix]"
      and e = "Raised ''LoweringException''" and compiler_name = "''inductor''",
      THEN conjunct1, THEN mp, OF conjI [OF valid fails]]
  note compile1 = capture_reraises [where cfg = "aot 1" and wd = ?full
      and gm = three_nodes and example_inputs = "[PTensor matrix]"
      and e = "Raised ''LoweringException''" and compiler_name = "''inductor''",
      THEN conjunct1, THEN mp, OF conjI [OF valid fails]]
  note call2 = capture_reraises [where cfg = "aot 2" and wd = "crashing_backend False"
      and gm = three_nodes and example_inputs = "[PTensor matrix]"
      and real_inputs = "[PTensor matrix]" and copy_tensor_attrs = "[PTensor matrix]"
      and inner_compiled_fn = ?boom
      and e = "Raised ''IllegalMemoryAccess''" and compiler_name = "''inductor''",
      THEN conjunct2, THEN conjunct1, THEN mp, OF conjI [OF boom copy1]]
  note call1 = capture_reraises [where cfg = "aot 1" and wd = ?full'
      and gm = three_nodes and example_inputs = "[PTensor matrix]"
      and real_inputs = "[PTensor matrix]" and copy_tensor_attrs = "[PTensor matrix]"
      and inner_compiled_fn = ?boom
      and e = "Raised ''IllegalMemoryAccess''" and compiler_name = "''inductor''",
      THEN conjunct2, THEN conjunct1, THEN mp, OF conjI [OF boom copy2]]
  note call4 = capture_reraises [where cfg = "aot 4" and wd = "crashing_backend True"
      and gm = three_nodes and example_inputs = "[PTensor matrix]"
      and real_inputs = "[PTensor matrix]" and copy_tensor_attrs = "[PTensor matrix]"
      and inner_compiled_fn = ?boom
      and e = "Raised ''IllegalMemoryAccess''" and compiler_name = "''inductor''",
      THEN conjunct2, THEN conjunct1, THEN mp, OF conjI [OF boom copy1]]
  have 1: "debug_wrapper (failing_backend None) (aot 1) ''inductor'' three_nodes [PTensor matrix]
     = ([Logged (WritingCheckpoint 3), Checkpoint 3 ''inductor'' ''run'' ?ls,
         CopiedRepro, Logged CopyingRepro, Logged CompilerError],
        Inl (Raised ''LoweringException''))"
    using compile s1 by (simp add: aot_def)
  have 2: "debug_wrapper ?full (aot 2) ''inductor'' three_nodes [PTensor matrix]
     = ([MinifierLauncher ''inductor'' ?ls, Logged CompilerError],
        Inl (Raised ''LoweringException''))"
    using compile2 m1 by (simp add: aot_def)
  have 3: "debug_wrapper ?full (aot 1) ''inductor'' three_nodes [PTensor matrix]
     = ([Logged (WritingCheckpoint 3)], Inl (Raised ''OSError''))"
    using compile1 f1 by (simp add: aot_def)
  have 4: "deferred_for_real_inputs (crashing_backend False) (aot 2) ''inductor'' three_nodes
        [PTensor matrix] ?boom [PTensor matrix]
     = ([MinifierLauncher ''inductor'' ?ls], Inl (Raised ''IllegalMemoryAccess''))"
    using call2 m2 by (simp add: aot_def)
  have 5: "deferred_for_real_inputs ?full' (aot 1) ''inductor'' three_nodes
        [PTensor matrix] ?boom [PTensor matrix]
     = ([Logged (WritingCheckpoint 3)], Inl (Raised ''OSError''))"
    using call1 f2 by (simp add: aot_def)
  have 6: "deferred_for_real_inputs (crashing_backend True) (aot 4) ''inductor'' three_nodes
        [PTensor matrix] ?boom [PTensor matrix]
     = ([Logged (AccuracyFailed ''forward_0''),
         Logged (WritingCheckpoint 3), Checkpoint 3 ''inductor_accuracy'' ''run'' ?ls,
         CopiedRepro, Logged CopyingRepro,
         MinifierLauncher ''inductor_accuracy'' ?ls],
        Inl (AccuracyError ''Bad accuracy detected''))"
    using call4 s2 m2 acc name by (simp add: aot_def)
  have late: "(\<lambda>real :: arg list. (Inr 42 :: error + nat)) [PTensor matrix] = Inr 42
      \<and> list_ex is_cuda [PTensor cuda_matrix]
      \<and> cuda_synchronize ?sync = Some (Raised ''IllegalMemoryAccess'')
      \<and> repro_after (aot 2) = Some ''aot''
      \<and> [PTensor matrix]
          = map (\<lambda>x. case x of PTensor t \<Rightarrow> PTensor (from_tensor ?sync t) | _ \<Rightarrow> x)
              [PTensor matrix]"
    by (simp add: is_cuda_def cuda_matrix_def cuda0_def aot_def crashing_backend_def)
  have m3: "dump_to_minify ?sync three_nodes [PTensor matrix] ''inductor''
              = ([MinifierLauncher ''inductor'' ?ls], Inr ())"
    by (simp add: dump_minify_matrix crashing_backend_def content_hash_def)
  note synced = capture_reraises [where cfg = "aot 2" and wd = ?sync
      and gm = three_nodes and example_inputs = "[PTensor cuda_matrix]"
      and real_inputs = "[PTensor matrix]" and copy_tensor_attrs = "[PTensor matrix]"
      and inner_compiled_fn = "\<lambda>real. Inr 42" and out = 42
      and e = "Raised ''IllegalMemoryAccess''" and compiler_name = "''inductor''",
      THEN conjunct2, THEN conjunct2, THEN mp, OF late]
  have 7: "deferred_for_real_inputs ?sync (aot 2) ''inductor'' three_nodes
        [PTensor cuda_matrix] (\<lambda>real. Inr 42) [PTensor matrix]
     = ([MinifierLauncher ''inductor'' ?ls], Inl (Raised ''IllegalMemoryAccess''))"
    using synced m3 by (simp add: aot_def)
  from 1 2 3 4 5 6 7 show ?thesis by simp
qed

text \<open>
  C1 as stated fails: the backend raises \<open>LoweringException\<close>, the level is 1, and
  \<open>open\<close> of the checkpoint file raises \<open>OSError\<close> (a full disk); the wrapper raises the
  \<open>OSError\<close>, and logs neither a warning about it nor the compiler error.
\<close>

theorem failed_dump_masks_error:
  "compiler_fn (failing_backend (Some (Raised ''OSError''))) three_nodes [PTensor matrix]
     = Inl (Raised ''LoweringException'')
   \<and> debug_wrapper (failing_backend (Some (Raised ''OSError''))) (aot 1) ''inductor'' three_nodes
        [PTensor matrix]
     = ([Logged (WritingCheckpoint 3)], Inl (Raised ''OSError''))"
  by (simp add: debug_wrapper_def dump_compiler_graph_state_def failing_backend_def aot_def
        three_nodes_def)

subsection \<open>Isolation and the minifier query\<close>

text \<open>
  C9, as the code has it. Once the candidate script is written, \<open>isolate_fails\<close> returns
  false when the process exits with 0, printing nothing; when the process exits with
  another code it decodes and prints the captured \<open>stdout\<close> and \<open>stderr\<close> and returns
  true, and output that is not UTF-8 raises \<open>UnicodeDecodeError\<close> out of the predicate
  instead (after \<open>stdout\<close> is printed, if \<open>stderr\<close> is the one). \<open>repro_minifier_query\<close>
  exits with 1 when the failure predicate holds and with 0 when it does not.
\<close>

theorem isolation_exit_code_contract:
  "(makedirs_error wd = None \<and> open_error wd = None
      \<and> save_graph_repro wd fx_g as compiler_name has_save_dir = Inr ls \<longrightarrow>
      (returncode (popen ls) = 0 \<longrightarrow>
         isolate_fails wd popen fx_g as compiler_name has_save_dir
           = ([IsolateFile ''minifier-query'' ls], Inr False))
    \<and> (returncode (popen ls) \<noteq> 0 \<and> stdout (popen ls) = Decodes out
          \<and> stderr (popen ls) = Decodes err \<longrightarrow>
         isolate_fails wd popen fx_g as compiler_name has_save_dir
           = ([IsolateFile ''minifier-query'' ls,
               PrintIndented ''>>  '' out, PrintIndented ''>>  '' err], Inr True))
    \<and> (returncode (popen ls) \<noteq> 0 \<and> stdout (popen ls) = Undecodable \<longrightarrow>
         isolate_fails wd popen fx_g as compiler_name has_save_dir
           = ([IsolateFile ''minifier-query'' ls], Inl UnicodeDecodeError))
    \<and> (returncode (popen ls) \<noteq> 0 \<and> stdout (popen ls) = Decodes out
          \<and> stderr (popen ls) = Undecodable \<longrightarrow>
         isolate_fails wd popen fx_g as compiler_name has_save_dir
           = ([IsolateFile ''minifier-query'' ls, PrintIndented ''>>  '' out],
              Inl UnicodeDecodeError)))
   \<and> ((if accuracy then inductor_accuracy_fails else inductor_fails) md margs = Inr fails
    \<longrightarrow> repro_minifier_query accuracy (Inr (md, margs)) inductor_accuracy_fails inductor_fails
          = Inr (if fails then 1 else 0))"
  by (simp add: isolate_fails_def repro_minifier_query_def Let_def)

lemma written_matrix_no_store:
  "save_graph_repro (crashing_backend False) three_nodes [PTensor matrix] ''inductor'' False
     = Inr [StorageLine 0 None 24 None None, TensorLine 0 [2, 3] None None None [] ''arg0_1'']"
  by (simp add: save_graph_repro_def generate_compiler_repro_string_def three_nodes_def
        matrix_def host_storage_def writer_simps)

theorem isolation_exit_code_contract_witness:
  "isolate_fails (crashing_backend False) (exits (-11)) three_nodes [PTensor matrix] ''inductor'' False
     = ([IsolateFile ''minifier-query''
           [StorageLine 0 None 24 None None, TensorLine 0 [2, 3] None None None [] ''arg0_1''],
         PrintIndented ''>>  '' ''out'', PrintIndented ''>>  '' ''err''], Inr True)
   \<and> isolate_fails (crashing_backend False) (exits 0) three_nodes [PTensor matrix] ''inductor'' False
     = ([IsolateFile ''minifier-query''
           [StorageLine 0 None 24 None None, TensorLine 0 [2, 3] None None None [] ''arg0_1'']],
        Inr False)
   \<and> isolate_fails (crashing_backend False) crashes three_nodes [PTensor matrix] ''inductor'' False
     = ([IsolateFile ''minifier-query''
           [StorageLine 0 None 24 None None, TensorLine 0 [2, 3] None None None [] ''arg0_1'']],
        Inl UnicodeDecodeError)
   \<and> repro_minifier_query True (Inr ((), ())) (\<lambda>m a. Inr True) (\<lambda>m a. Inr False) = Inr 1
   \<and> repro_minifier_query False (Inr ((), ())) (\<lambda>m a. Inr True) (\<lambda>m a. Inr False) = Inr 0"
proof -
  let ?ls = "[StorageLine 0 None 24 None None, TensorLine 0 [2, 3] None None None [] ''arg0_1'']"
  have written: "makedirs_error (crashing_backend False) = None
      \<and> open_error (crashing_backend False) = None
      \<and> save_graph_repro (crashing_backend False) three_nodes [PTensor matrix] ''inductor'' False
          = Inr ?ls"
    by (simp add: written_matrix_no_store) (simp add: crashing_backend_def)
  note killed = isolation_exit_code_contract [where wd = "crashing_backend False"
      and fx_g = three_nodes and as = "[PTensor matrix]" and compiler_name = "''inductor''"
      and has_save_dir = False and ls = ?ls and popen = "exits (-11)"
      and out = "''out''" and err = "''err''",
      THEN conjunct1, THEN mp, OF written]
  note fine = isolation_exit_code_contract [where wd = "crashing_backend False"
      and fx_g = three_nodes and as = "[PTensor matrix]" and compiler_name = "''inductor''"
      and has_save_dir = False and ls = ?ls and popen = "exits 0",
      THEN conjunct1, THEN mp, OF written]
  note garbled = isolation_exit_code_contract [where wd = "crashing_backend False"
      and fx_g = three_nodes and as = "[PTensor matrix]" and compiler_name = "''inductor''"
      and has_save_dir = False and ls = ?ls and popen = crashes,
      THEN conjunct1, THEN mp, OF written]
  note query1 = isolation_exit_code_contract [where accuracy = True
      and inductor_accuracy_fails = "\<lambda>m a. Inr True" and inductor_fails = "\<lambda>m a. Inr False"
      and md = "()" and margs = "()" and fails = True, THEN conjunct2]
  note query0 = isolation_exit_code_contract [where accuracy = False
      and inductor_accuracy_fails = "\<lambda>m a. Inr True" and inductor_fails = "\<lambda>m a. Inr False"
      and md = "()" and margs = "()" and fails = False, THEN conjunct2]
  show ?thesis
    using killed fine garbled query1 query0
    by (simp add: exits_def crashes_def)
qed

text \<open>
  C9 as stated fails: a process killed by a signal (exit code -11) whose \<open>stdout\<close> is not
  UTF-8 makes \<open>isolate_fails\<close> raise \<open>UnicodeDecodeError\<close>; it does not return true.
\<close>

theorem isolate_fails_decode_error:
  "returncode (crashes [StorageLine 0 None 24 None None,
                        TensorLine 0 [2, 3] None None None [] ''arg0_1'']) \<noteq> 0
   \<and> isolate_fails (crashing_backend False) crashes three_nodes [PTensor matrix] ''inductor'' False
     = ([IsolateFile ''minifier-query''
           [StorageLine 0 None 24 None None, TensorLine 0 [2, 3] None None None [] ''arg0_1'']],
        Inl UnicodeDecodeError)"
proof -
  have quiet: "makedirs_error (crashing_backend False) = None"
    "open_error (crashing_backend False) = None"
    by (simp_all add: crashing_backend_def)
  show ?thesis
    by (simp add: isolate_fails_def written_matrix_no_store crashes_def quiet)
qed

subsection \<open>The analyzer\<close>

lemma reader_run_node_report:
  assumes "name \<in> known_names \<longrightarrow>
             ts_tensor ts (''inductor'', name) \<noteq> None \<and> ts_tensor ts (''float64'', name) \<noteq> None"
    and "\<forall>r i f. same r i f tol True \<noteq> (False, [])"
  shows "reader_run_node same tol known_names ts name r pb =
           Inr (pb\<lparr>written := written pb @ node_report same tol known_names ts (name, r),
                   updates := updates pb + (if name \<in> known_names then 1 else 0)\<rparr>)"
proof (cases "name \<in> known_names")
  case False
  then show ?thesis by (simp add: reader_run_node_def node_report_def)
next
  case True
  with assms(1) obtain i f where i: "ts_tensor ts (''inductor'', name) = Some i"
    and f: "ts_tensor ts (''float64'', name) = Some f" by auto
  obtain ok msgs where s: "same r i f tol True = (ok, msgs)" by (cases "same r i f tol True")
  with assms(2) have "\<not> (\<not> ok \<and> msgs = [])" by (metis (full_types))
  with True i f s show ?thesis
    by (auto simp add: reader_run_node_def node_report_def Let_def)
qed

lemma divergence_pass:
  assumes "\<forall>(name, r) \<in> set nodes. name \<in> known_names \<longrightarrow>
             ts_tensor ts (''inductor'', name) \<noteq> None \<and> ts_tensor ts (''float64'', name) \<noteq> None"
    and "\<forall>r i f. same r i f tol True \<noteq> (False, [])"
  shows "run_hooks (reader_run_node same tol known_names ts) nodes pb =
           Inr (pb\<lparr>written := written pb @ concat (map (node_report same tol known_names ts) nodes),
                   updates := updates pb + length (filter (\<lambda>n. fst n \<in> known_names) nodes)\<rparr>)"
  using assms
proof (induction nodes arbitrary: pb)
  case Nil
  then show ?case by simp
next
  case (Cons n nodes)
  obtain name r where n: "n = (name, r)" by (cases n)
  from Cons.prems n have 1: "name \<in> known_names \<longrightarrow>
             ts_tensor ts (''inductor'', name) \<noteq> None \<and> ts_tensor ts (''float64'', name) \<noteq> None"
    by simp
  from Cons.prems have 2: "\<forall>(name, r) \<in> set nodes. name \<in> known_names \<longrightarrow>
             ts_tensor ts (''inductor'', name) \<noteq> None \<and> ts_tensor ts (''float64'', name) \<noteq> None"
    by simp
  have step: "reader_run_node same tol known_names ts name r pb =
           Inr (pb\<lparr>written := written pb @ node_report same tol known_names ts (name, r),
                   updates := updates pb + (if name \<in> known_names then 1 else 0)\<rparr>)"
    using 1 Cons.prems(2) by (rule reader_run_node_report)
  have rest: "run_hooks (reader_run_node same tol known_names ts) nodes pb' =
           Inr (pb'\<lparr>written := written pb' @ concat (map (node_report same tol known_names ts) nodes),
                   updates := updates pb' + length (filter (\<lambda>n. fst n \<in> known_names) nodes)\<rparr>)"
    for pb'
    using 2 Cons.prems(2) by (rule Cons.IH)
  show ?case
    by (simp add: n step rest)
qed

lemma agrees_no_report:
  "agrees same tol known_names ts n \<Longrightarrow> node_report same tol known_names ts n = []"
  by (cases n) (auto simp: agrees_def node_report_def split: option.splits)

lemma run_hooks_append:
  "run_hooks hook (xs @ ys) st =
     (case run_hooks hook xs st of Inl e \<Rightarrow> Inl e | Inr st1 \<Rightarrow> run_hooks hook ys st1)"
  by (induction xs arbitrary: st) (auto split: sum.splits)

lemma divergence_abort:
  assumes "\<forall>(name, r) \<in> set before. name \<in> known_names \<longrightarrow>
             ts_tensor ts (''inductor'', name) \<noteq> None \<and> ts_tensor ts (''float64'', name) \<noteq> None"
    and "\<forall>r i f. same r i f tol True \<noteq> (False, [])"
    and "name \<in> known_names"
    and "ts_tensor ts (''inductor'', name) = None \<or> ts_tensor ts (''float64'', name) = None"
  shows "run_hooks (reader_run_node same tol known_names ts) (before @ [(name, r)] @ after) pb
           = Inl FileNotFoundError"
proof -
  have stop: "reader_run_node same tol known_names ts name r pb' = Inl FileNotFoundError" for pb'
    using assms(3,4) by (auto simp: reader_run_node_def split: option.splits)
  have "run_hooks (reader_run_node same tol known_names ts) before pb =
           Inr (pb\<lparr>written := written pb @ concat (map (node_report same tol known_names ts) before),
                   updates := updates pb + length (filter (\<lambda>n. fst n \<in> known_names) before)\<rparr>)"
    using assms(1,2) by (rule divergence_pass)
  then show ?thesis
    by (simp add: run_hooks_append stop)
qed

text \<open>
  C3, as the code has it. The divergence pass goes through the nodes in the order of the
  graph and selects them by \<open>known_names\<close>, not by the traces present:
  \<^item> a node whose name is not known is passed over, whatever traces it has;
  \<^item> a known node lacking its \<open>inductor\<close> or its \<open>float64\<close> trace raises
    \<open>FileNotFoundError\<close>, which ends the pass before any later node is looked at;
  \<^item> a known node with both traces is compared by \<open>same\<close> with the two stored values,
    the configured tolerance and \<open>equal_nan\<close>, and one \<open>DIVERGED at\<close> line is written
    per message of the comparison (a failure without a message fails the \<open>assert\<close>).
  So when every known node has both traces and \<open>same\<close> logs whenever it fails, the lines
  written are those of the known nodes in order, and the first line names the first known
  node that disagrees.
\<close>

theorem first_divergence_reported:
  "(name \<notin> known_names \<longrightarrow>
      reader_run_node same tol known_names ts name r pb = Inr pb)
   \<and> (name \<in> known_names
        \<and> (ts_tensor ts (''inductor'', name) = None \<or> ts_tensor ts (''float64'', name) = None) \<longrightarrow>
      reader_run_node same tol known_names ts name r pb = Inl FileNotFoundError)
   \<and> (name \<in> known_names \<and> ts_tensor ts (''inductor'', name) = Some i
        \<and> ts_tensor ts (''float64'', name) = Some f \<and> same r i f tol True = (ok, msgs) \<longrightarrow>
      reader_run_node same tol known_names ts name r pb =
        (if \<not> ok \<and> msgs = [] then Inl AssertionError
         else Inr (pb\<lparr>written := written pb @ map (\<lambda>m. ''DIVERGED at '' @ name @ '': '' @ m) msgs,
                      updates := Suc (updates pb)\<rparr>)))
   \<and> ((\<forall>(name, r) \<in> set nodes. name \<in> known_names \<longrightarrow>
          ts_tensor ts (''inductor'', name) \<noteq> None \<and> ts_tensor ts (''float64'', name) \<noteq> None)
        \<and> (\<forall>r i f. same r i f tol True \<noteq> (False, [])) \<longrightarrow>
      (\<exists>pb. check_divergence same tol known_names ts nodes = Inr pb
           \<and> written pb = concat (map (node_report same tol known_names ts) nodes)
           \<and> updates pb = length (filter (\<lambda>n. fst n \<in> known_names) nodes)
           \<and> (\<forall>before name r after i f msg msgs.
                 nodes = before @ [(name, r)] @ after
                 \<and> (\<forall>n \<in> set before. agrees same tol known_names ts n)
                 \<and> name \<in> known_names
                 \<and> ts_tensor ts (''inductor'', name) = Some i
                 \<and> ts_tensor ts (''float64'', name) = Some f
                 \<and> same r i f tol True = (False, msg # msgs)
                 \<longrightarrow> written pb =
                       map (\<lambda>m. ''DIVERGED at '' @ name @ '': '' @ m) (msg # msgs)
                       @ concat (map (node_report same tol known_names ts) after))))
   \<and> ((\<forall>(name, r) \<in> set before. name \<in> known_names \<longrightarrow>
          ts_tensor ts (''inductor'', name) \<noteq> None \<and> ts_tensor ts (''float64'', name) \<noteq> None)
        \<and> (\<forall>r i f. same r i f tol True \<noteq> (False, []))
        \<and> name \<in> known_names
        \<and> (ts_tensor ts (''inductor'', name) = None \<or> ts_tensor ts (''float64'', name) = None) \<longrightarrow>
      check_divergence same tol known_names ts (before @ [(name, r)] @ after)
        = Inl FileNotFoundError)"
proof -
  have unknown: "name \<notin> known_names \<longrightarrow>
      reader_run_node same tol known_names ts name r pb = Inr pb"
    by (simp add: reader_run_node_def)
  have missing: "name \<in> known_names
        \<and> (ts_tensor ts (''inductor'', name) = None \<or> ts_tensor ts (''float64'', name) = None) \<longrightarrow>
      reader_run_node same tol known_names ts name r pb = Inl FileNotFoundError"
    by (auto simp: reader_run_node_def split: option.splits)
  have compared: "name \<in> known_names \<and> ts_tensor ts (''inductor'', name) = Some i
        \<and> ts_tensor ts (''float64'', name) = Some f \<and> same r i f tol True = (ok, msgs) \<longrightarrow>
      reader_run_node same tol known_names ts name r pb =
        (if \<not> ok \<and> msgs = [] then Inl AssertionError
         else Inr (pb\<lparr>written := written pb @ map (\<lambda>m. ''DIVERGED at '' @ name @ '': '' @ m) msgs,
                      updates := Suc (updates pb)\<rparr>))"
    by (simp add: reader_run_node_def Let_def)
  have pass: "\<exists>pb. check_divergence same tol known_names ts nodes = Inr pb
           \<and> written pb = concat (map (node_report same tol known_names ts) nodes)
           \<and> updates pb = length (filter (\<lambda>n. fst n \<in> known_names) nodes)
           \<and> (\<forall>before name r after i f msg msgs.
                 nodes = before @ [(name, r)] @ after
                 \<and> (\<forall>n \<in> set before. agrees same tol known_names ts n)
                 \<and> name \<in> known_names
                 \<and> ts_tensor ts (''inductor'', name) = Some i
                 \<and> ts_tensor ts (''float64'', name) = Some f
                 \<and> same r i f tol True = (False, msg # msgs)
                 \<longrightarrow> written pb =
                       map (\<lambda>m. ''DIVERGED at '' @ name @ '': '' @ m) (msg # msgs)
                       @ concat (map (node_report same tol known_names ts) after))"
    if traces: "\<forall>(name, r) \<in> set nodes. name \<in> known_names \<longrightarrow>
          ts_tensor ts (''inductor'', name) \<noteq> None \<and> ts_tensor ts (''float64'', name) \<noteq> None"
      and logs: "\<forall>r i f. same r i f tol True \<noteq> (False, [])"
  proof -
    let ?pb = "\<lparr>written = concat (map (node_report same tol known_names ts) nodes),
                updates = length (filter (\<lambda>n. fst n \<in> known_names) nodes)\<rparr>"
    have run: "check_divergence same tol known_names ts nodes = Inr ?pb"
    proof -
      have "run_hooks (reader_run_node same tol known_names ts) nodes \<lparr>written = [], updates = 0\<rparr> =
             Inr (\<lparr>written = [], updates = 0\<rparr>\<lparr>written := written \<lparr>written = [], updates = 0\<rparr>
                       @ concat (map (node_report same tol known_names ts) nodes),
                     updates := updates \<lparr>written = [], updates = 0\<rparr>
                       + length (filter (\<lambda>n. fst n \<in> known_names) nodes)\<rparr>)"
        using traces logs by (rule divergence_pass)
      then show ?thesis by (simp add: check_divergence_def)
    qed
    have first: "written ?pb =
        map (\<lambda>m. ''DIVERGED at '' @ name @ '': '' @ m) (msg # msgs)
          @ concat (map (node_report same tol known_names ts) after)"
      if "nodes = before @ [(name, r)] @ after"
        and "\<forall>n \<in> set before. agrees same tol known_names ts n"
        and "name \<in> known_names"
        and "ts_tensor ts (''inductor'', name) = Some i"
        and "ts_tensor ts (''float64'', name) = Some f"
        and "same r i f tol True = (False, msg # msgs)"
      for before name r after i f msg msgs
    proof -
      have "concat (map (node_report same tol known_names ts) before) = []"
        using that(2) by (induction before) (simp_all add: agrees_no_report)
      moreover have "node_report same tol known_names ts (name, r)
          = map (\<lambda>m. ''DIVERGED at '' @ name @ '': '' @ m) (msg # msgs)"
        using that(3-6) by (simp add: node_report_def)
      ultimately show ?thesis using that(1) by simp
    qed
    show ?thesis
      apply (rule exI [of _ ?pb])
      using run first by simp
  qed
  have abort: "check_divergence same tol known_names ts (before @ [(name, r)] @ after)
        = Inl FileNotFoundError"
    if "\<forall>(name, r) \<in> set before. name \<in> known_names \<longrightarrow>
          ts_tensor ts (''inductor'', name) \<noteq> None \<and> ts_tensor ts (''float64'', name) \<noteq> None"
      and "\<forall>r i f. same r i f tol True \<noteq> (False, [])"
      and "name \<in> known_names"
      and "ts_tensor ts (''inductor'', name) = None \<or> ts_tensor ts (''float64'', name) = None"
    unfolding check_divergence_def using that by (rule divergence_abort)
  from unknown missing compared pass abort show ?thesis by blast
qed

theorem first_divergence_reported_witness:
  "check_divergence same_shape 0 {''a'', ''b'', ''c''} chain_traces
     [(''a'', matrix), (''b'', matrix), (''c'', matrix)]
     = Inr \<lparr>written = [''DIVERGED at c: shape mismatch''], updates = 3\<rparr>
   \<and> check_divergence same_shape 0 {''a'', ''z'', ''c''} chain_traces
       ([(''a'', matrix)] @ [(''z'', matrix)] @ [(''c'', matrix)])
     = Inl FileNotFoundError
   \<and> reader_run_node same_shape 0 {''a'', ''b''} chain_traces ''c'' matrix
       \<lparr>written = [], updates = 2\<rparr>
     = Inr \<lparr>written = [], updates = 2\<rparr>"
proof -
  have traces: "\<forall>(name, r) \<in> set [(''a'', matrix), (''b'', matrix), (''c'', matrix)].
      name \<in> {''a'', ''b'', ''c''} \<longrightarrow>
        ts_tensor chain_traces (''inductor'', name) \<noteq> None
        \<and> ts_tensor chain_traces (''float64'', name) \<noteq> None"
    by (simp add: chain_traces_def write_tensor_def)
  have logs: "\<forall>r i f. same_shape r i f 0 True \<noteq> (False, [])"
    by (simp add: same_shape_def)
  note run = first_divergence_reported [where same = same_shape and tol = 0
      and known_names = "{''a'', ''b'', ''c''}" and ts = chain_traces
      and nodes = "[(''a'', matrix), (''b'', matrix), (''c'', matrix)]",
      THEN conjunct2, THEN conjunct2, THEN conjunct2, THEN conjunct1, THEN mp,
      OF conjI [OF traces logs]]
  have report: "concat (map (node_report same_shape 0 {''a'', ''b'', ''c''} chain_traces)
                  [(''a'', matrix), (''b'', matrix), (''c'', matrix)])
                = [''DIVERGED at c: shape mismatch'']"
    by (simp add: node_report_def chain_traces_def write_tensor_def same_shape_def
          matrix_def column_def)
  from run obtain pb where "check_divergence same_shape 0 {''a'', ''b'', ''c''} chain_traces
        [(''a'', matrix), (''b'', matrix), (''c'', matrix)] = Inr pb"
    and "written pb = concat (map (node_report same_shape 0 {''a'', ''b'', ''c''} chain_traces)
                  [(''a'', matrix), (''b'', matrix), (''c'', matrix)])"
    and "updates pb = length (filter (\<lambda>n. fst n \<in> {''a'', ''b'', ''c''})
                  [(''a'', matrix), (''b'', matrix), (''c'', matrix)])"
    by (elim exE conjE)
  with report have 1: "check_divergence same_shape 0 {''a'', ''b'', ''c''} chain_traces
     [(''a'', matrix), (''b'', matrix), (''c'', matrix)]
     = Inr \<lparr>written = [''DIVERGED at c: shape mismatch''], updates = 3\<rparr>"
    by (cases pb) simp
  have before: "\<forall>(name, r) \<in> set [(''a'', matrix)].
      name \<in> {''a'', ''z'', ''c''} \<longrightarrow>
        ts_tensor chain_traces (''inductor'', name) \<noteq> None
        \<and> ts_tensor chain_traces (''float64'', name) \<noteq> None"
    by (simp add: chain_traces_def write_tensor_def)
  have known: "''z'' \<in> {''a'', ''z'', ''c''}" by simp
  have lacks: "ts_tensor chain_traces (''inductor'', ''z'') = None
      \<or> ts_tensor chain_traces (''float64'', ''z'') = None"
    by (simp add: chain_traces_def write_tensor_def)
  note abort = first_divergence_reported [where same = same_shape and tol = 0
      and known_names = "{''a'', ''z'', ''c''}" and ts = chain_traces
      and before = "[(''a'', matrix)]" and name = "''z''" and r = matrix
      and after = "[(''c'', matrix)]",
      THEN conjunct2, THEN conjunct2, THEN conjunct2, THEN conjunct2, THEN mp,
      OF conjI [OF before conjI [OF logs conjI [OF known lacks]]]]
  have unknown: "''c'' \<notin> {''a'', ''b''}" by simp
  note skipped = first_divergence_reported [where same = same_shape and tol = 0
      and known_names = "{''a'', ''b''}" and ts = chain_traces and name = "''c''"
      and r = matrix and pb = "\<lparr>written = [], updates = 2\<rparr>",
      THEN conjunct1, THEN mp, OF unknown]
  from 1 abort skipped show ?thesis by simp
qed

text \<open>
  C3 as stated fails. The node \<open>c\<close> has both traces and its value disagrees with the
  compiled one; when \<open>c\<close> is not among the known names the pass compares nothing and
  reports nothing, and when an earlier known node \<open>z\<close> lacks its traces the pass ends
  with \<open>FileNotFoundError\<close> without reporting \<open>c\<close>.
\<close>

theorem divergence_not_reported:
  "ts_tensor chain_traces (''inductor'', ''c'') = Some column
   \<and> ts_tensor chain_traces (''float64'', ''c'') = Some matrix
   \<and> same_shape matrix column matrix 0 True = (False, [''shape mismatch''])
   \<and> check_divergence same_shape 0 {''a'', ''b''} chain_traces
       [(''a'', matrix), (''b'', matrix), (''c'', matrix)]
     = Inr \<lparr>written = [], updates = 2\<rparr>
   \<and> check_divergence same_shape 0 {''z'', ''c''} chain_traces
       [(''z'', matrix), (''c'', matrix)]
     = Inl FileNotFoundError"
  by (simp add: check_divergence_def reader_run_node_def chain_traces_def write_tensor_def
        same_shape_def matrix_def column_def)

lemma differing_indices:
  "length xs = length ys \<Longrightarrow>
     (filter (\<lambda>i. xs ! i \<noteq> ys ! i) [0..<length xs] = []) = (xs = ys)"
  using list_eq_iff_nth_eq [of xs ys] by (auto simp: filter_empty_conv)

lemma compare_tuples_same_length:
  assumes "length tuple1 = length tuple2"
  shows "(tuple1 = tuple2 \<longrightarrow> compare_tuples fmt tuple1 tuple2 = Inr None)
       \<and> (tuple1 \<noteq> tuple2 \<longrightarrow> (\<exists>reason. compare_tuples fmt tuple1 tuple2 = Inr (Some reason)))"
  using assms differing_indices [OF assms]
  by (auto simp: compare_tuples_def Let_def)

lemma length_metadata: "length (compute_tensor_metadata t) = 4"
  by (simp add: compute_tensor_metadata_def)

lemma check_hook_report:
  assumes "ts_meta ts (''inductor'', name) = Some (compute_tensor_metadata first)"
  shows "check_hook fmt ts name val pb =
           Inr (pb\<lparr>written := written pb @ hook_report fmt ts (name, val),
                   updates := Suc (updates pb)\<rparr>)"
proof -
  have len: "length (compute_tensor_metadata val) = length (compute_tensor_metadata first)"
    by (simp add: length_metadata)
  show ?thesis
    using assms compare_tuples_same_length [OF len, of fmt]
    by (cases "compute_tensor_metadata val = compute_tensor_metadata first")
       (auto simp: check_hook_def hook_report_def Let_def)
qed

lemma hook_report_cases:
  assumes "ts_meta ts (''inductor'', name) = Some (compute_tensor_metadata first)"
  shows "(compute_tensor_metadata val = compute_tensor_metadata first
            \<longrightarrow> hook_report fmt ts (name, val) = [])
       \<and> (compute_tensor_metadata val \<noteq> compute_tensor_metadata first
            \<longrightarrow> (\<exists>reason. hook_report fmt ts (name, val) =
                   [''NONDETERMINISTIC INDUCTOR at '' @ name @ '' ('' @ reason @ '')'']))"
proof -
  have len: "length (compute_tensor_metadata val) = length (compute_tensor_metadata first)"
    by (simp add: length_metadata)
  show ?thesis
    using assms compare_tuples_same_length [OF len, of fmt]
    by (cases "compute_tensor_metadata val = compute_tensor_metadata first")
       (auto simp: hook_report_def)
qed

lemma determinism_pass:
  assumes "\<forall>(name, val) \<in> set second_run.
             \<exists>first. ts_meta ts (''inductor'', name) = Some (compute_tensor_metadata first)"
  shows "run_hooks (check_hook fmt ts) second_run pb =
           Inr (pb\<lparr>written := written pb @ concat (map (hook_report fmt ts) second_run),
                   updates := updates pb + length second_run\<rparr>)"
  using assms
proof (induction second_run arbitrary: pb)
  case Nil
  then show ?case by simp
next
  case (Cons h rest)
  obtain name val where h: "h = (name, val)" by (cases h)
  from Cons.prems h obtain first
    where "ts_meta ts (''inductor'', name) = Some (compute_tensor_metadata first)" by auto
  then have step: "check_hook fmt ts name val pb =
           Inr (pb\<lparr>written := written pb @ hook_report fmt ts (name, val),
                   updates := Suc (updates pb)\<rparr>)"
    by (rule check_hook_report)
  from Cons.prems have "\<forall>(name, val) \<in> set rest.
             \<exists>first. ts_meta ts (''inductor'', name) = Some (compute_tensor_metadata first)"
    by simp
  then have tail: "run_hooks (check_hook fmt ts) rest pb' =
           Inr (pb'\<lparr>written := written pb' @ concat (map (hook_report fmt ts) rest),
                   updates := updates pb' + length rest\<rparr>)" for pb'
    by (rule Cons.IH)
  show ?case by (simp add: h step tail)
qed

text \<open>
  C4. The determinism pass runs the compiled graph a second time and, for every hooked
  intermediate whose metadata the first run stored, compares the metadata of the new value
  with the stored metadata and nothing else: the stored tensors are not read. A value whose
  metadata differs, a different shape in particular, gives a \<open>NONDETERMINISTIC INDUCTOR\<close>
  line naming the node, written by that hook call; equal metadata gives no line; no line
  of the pass is a \<open>DIVERGED\<close> line.
\<close>

theorem determinism_check:
  assumes "\<forall>(name, val) \<in> set second_run.
             \<exists>first. ts_meta ts (''inductor'', name) = Some (compute_tensor_metadata first)"
  shows "\<exists>pb. check_deterministic fmt ts second_run = Inr pb
           \<and> updates pb = length second_run
           \<and> written pb = concat (map (hook_report fmt ts) second_run)
           \<and> (\<forall>name val first. (name, val) \<in> set second_run
                 \<and> ts_meta ts (''inductor'', name) = Some (compute_tensor_metadata first)
                 \<longrightarrow> (compute_tensor_metadata val = compute_tensor_metadata first
                        \<longrightarrow> hook_report fmt ts (name, val) = [])
                   \<and> (t_shape val \<noteq> t_shape first
                        \<or> compute_tensor_metadata val \<noteq> compute_tensor_metadata first
                        \<longrightarrow> (\<exists>reason.
                               hook_report fmt ts (name, val) =
                                 [''NONDETERMINISTIC INDUCTOR at '' @ name @ '' ('' @ reason @ '')'']
                               \<and> ''NONDETERMINISTIC INDUCTOR at '' @ name @ '' ('' @ reason @ '')''
                                   \<in> set (written pb))))
           \<and> check_deterministic fmt (ts\<lparr>ts_tensor := contents\<rparr>) second_run
               = check_deterministic fmt ts second_run
           \<and> (\<forall>line \<in> set (written pb). take 9 line \<noteq> ''DIVERGED ''
                 \<and> take 17 line = ''NONDETERMINISTIC '')"
proof -
  let ?pb = "\<lparr>written = concat (map (hook_report fmt ts) second_run),
              updates = length second_run\<rparr>"
  have "run_hooks (check_hook fmt ts) second_run \<lparr>written = [], updates = 0\<rparr> =
           Inr (\<lparr>written = [], updates = 0\<rparr>
                 \<lparr>written := written \<lparr>written = [], updates = 0\<rparr>
                      @ concat (map (hook_report fmt ts) second_run),
                   updates := updates \<lparr>written = [], updates = 0\<rparr> + length second_run\<rparr>)"
    using assms by (rule determinism_pass)
  then have run: "check_deterministic fmt ts second_run = Inr ?pb"
    by (simp add: check_deterministic_def)
  have cases: "(compute_tensor_metadata val = compute_tensor_metadata first
                        \<longrightarrow> hook_report fmt ts (name, val) = [])
                   \<and> (t_shape val \<noteq> t_shape first
                        \<or> compute_tensor_metadata val \<noteq> compute_tensor_metadata first
                        \<longrightarrow> (\<exists>reason.
                               hook_report fmt ts (name, val) =
                                 [''NONDETERMINISTIC INDUCTOR at '' @ name @ '' ('' @ reason @ '')'']
                               \<and> ''NONDETERMINISTIC INDUCTOR at '' @ name @ '' ('' @ reason @ '')''
                                   \<in> set (written ?pb)))"
    if "(name, val) \<in> set second_run"
      and "ts_meta ts (''inductor'', name) = Some (compute_tensor_metadata first)"
    for name val first
  proof -
    have shape: "t_shape val \<noteq> t_shape first
                   \<Longrightarrow> compute_tensor_metadata val \<noteq> compute_tensor_metadata first"
      by (simp add: compute_tensor_metadata_def)
    have mem: "set (hook_report fmt ts (name, val)) \<subseteq> set (written ?pb)"
      using that(1) by auto
    show ?thesis
      using hook_report_cases [OF that(2), of val fmt] shape mem by auto
  qed
  have same_meta: "check_hook fmt (ts\<lparr>ts_tensor := contents\<rparr>) = check_hook fmt ts"
    by (intro ext) (simp add: check_hook_def)
  have kind: "take 9 line \<noteq> ''DIVERGED '' \<and> take 17 line = ''NONDETERMINISTIC ''"
    if "line \<in> set (written ?pb)" for line
  proof -
    from that obtain h where "h \<in> set second_run" and "line \<in> set (hook_report fmt ts h)"
      by auto
    then show ?thesis
      by (cases h) (auto simp: hook_report_def split: option.splits sum.splits)
  qed
  show ?thesis
    apply (rule exI [of _ ?pb])
    using run cases kind by (simp add: check_deterministic_def same_meta)
qed


theorem determinism_check_witness:
  "check_deterministic field_name chain_traces [(''a'', matrix), (''c'', matrix)]
     = Inr \<lparr>written = [''NONDETERMINISTIC INDUCTOR at c (shape != shape and stride != stride)''],
            updates = 2\<rparr>"
proof -
  have stored: "\<forall>(name, val) \<in> set [(''a'', matrix), (''c'', matrix)].
      \<exists>first. ts_meta chain_traces (''inductor'', name) = Some (compute_tensor_metadata first)"
    by (simp add: chain_traces_def write_tensor_def) blast
  note run = determinism_check [where fmt = field_name and ts = chain_traces
      and second_run = "[(''a'', matrix), (''c'', matrix)]" and contents = Map.empty, OF stored]
  have report: "concat (map (hook_report field_name chain_traces)
                  [(''a'', matrix), (''c'', matrix)])
                = [''NONDETERMINISTIC INDUCTOR at c (shape != shape and stride != stride)'']"
    by (simp add: hook_report_def chain_traces_def write_tensor_def compare_tuples_def
          compute_tensor_metadata_def matrix_def column_def join_def upt_rec Let_def)
  from run obtain pb where "check_deterministic field_name chain_traces
        [(''a'', matrix), (''c'', matrix)] = Inr pb"
    and "updates pb = length [(''a'', matrix), (''c'', matrix)]"
    and "written pb = concat (map (hook_report field_name chain_traces)
                  [(''a'', matrix), (''c'', matrix)])"
    by (elim exE conjE)
  with report show ?thesis by (cases pb) simp
qed

subsection \<open>Scripts, the reader and the writer\<close>

lemma load_args_append:
  "load_args s (xs @ ys) =
     (case load_args s xs of Inl e \<Rightarrow> Inl e | Inr s1 \<Rightarrow> load_args s1 ys)"
  by (induction xs arbitrary: s) (auto split: sum.splits)

lemma storage_names_append:
  "storage_names (xs @ ys) = storage_names xs \<union> storage_names ys"
  by (induction xs rule: storage_names.induct) auto

lemma scoped_append:
  "scoped D (xs @ ys) = (scoped D xs \<and> scoped (D \<union> storage_names xs) ys)"
  by (induction D xs rule: scoped.induct) auto

lemma value_lines_append:
  "value_lines (xs @ ys) = value_lines xs @ value_lines ys"
  by (simp add: value_lines_def)

lemma scoped_no_allocation:
  "scoped D ls \<Longrightarrow> v \<in> D \<Longrightarrow> filter (allocates v) ls = []"
  by (induction D ls rule: scoped.induct) auto

lemma scoped_one_allocation:
  "scoped D ls \<Longrightarrow> v \<in> storage_names ls \<Longrightarrow> length (filter (allocates v) ls) = 1"
proof (induction D ls rule: scoped.induct)
  case (2 D v' h n dev hint ls)
  show ?case
  proof (cases "v = v'")
    case True
    with 2 have "filter (allocates v) ls = []"
      by (auto intro: scoped_no_allocation)
    with True show ?thesis by simp
  next
    case False
    with 2 show ?thesis by simp
  qed
qed auto

lemma reader_storage_keeps:
  "reader_storage rd h n dev hint = (s, rd1) \<Longrightarrow>
     r_args rd1 = r_args rd \<and> r_store rd1 = r_store rd \<and> fetched (r_store rd) h dev s"
  by (auto simp: reader_storage_def fetched_def rand_strided_storage_def Let_def
           split: option.splits if_splits)

lemma replay_scoped:
  assumes "scoped (dom env0) ls"
  shows "\<exists>env rd. load_args (env0, rd0) ls = Inr (env, rd)
           \<and> env0 \<subseteq>\<^sub>m env
           \<and> r_args rd = r_args rd0 @ map (value_of env) (value_lines ls)
           \<and> r_store rd = r_store rd0
           \<and> (\<forall>v h n dev hint. StorageLine v h n dev hint \<in> set ls
                 \<longrightarrow> (\<exists>s. env v = Some s \<and> fetched (r_store rd0) h dev s))"
  using assms
proof (induction ls arbitrary: env0 rd0)
  case Nil
  then show ?case by (simp add: value_lines_def)
next
  case (Cons l ls)
  show ?case
  proof (cases l)
    case (StorageLine v h n dev hint)
    obtain s rd1 where rs: "reader_storage rd0 h n dev hint = (s, rd1)"
      by (cases "reader_storage rd0 h n dev hint")
    note keeps = reader_storage_keeps [OF rs]
    from Cons.prems StorageLine have fresh: "v \<notin> dom env0"
      and "scoped (dom (env0(v \<mapsto> s))) ls" by simp_all
    from Cons.IH [OF this(2), of rd1] obtain env rd where
      run: "load_args (env0(v \<mapsto> s), rd1) ls = Inr (env, rd)"
      and sub: "env0(v \<mapsto> s) \<subseteq>\<^sub>m env"
      and as: "r_args rd = r_args rd1 @ map (value_of env) (value_lines ls)"
      and st: "r_store rd = r_store rd1"
      and fe: "\<forall>v h n dev hint. StorageLine v h n dev hint \<in> set ls
                 \<longrightarrow> (\<exists>s. env v = Some s \<and> fetched (r_store rd1) h dev s)"
      by blast
    have sub0: "env0 \<subseteq>\<^sub>m env"
      unfolding map_le_def
    proof
      fix a assume a: "a \<in> dom env0"
      with fresh have ne: "a \<noteq> v" by auto
      from sub have all: "\<forall>a\<in>dom (env0(v \<mapsto> s)). (env0(v \<mapsto> s)) a = env a"
        unfolding map_le_def .
      from a have "a \<in> dom (env0(v \<mapsto> s))" by simp
      with all have "(env0(v \<mapsto> s)) a = env a" by (rule bspec)
      with ne show "env0 a = env a" by simp
    qed
    from sub have here: "env v = Some s"
      by (auto simp: map_le_def)
    show ?thesis
      apply (rule exI [of _ env], rule exI [of _ rd])
      using run sub0 as st fe keeps here rs StorageLine
      by (auto simp: value_lines_def)
  next
    case (TensorLine v shape stride off dt md name)
    from Cons.prems TensorLine obtain s where s: "env0 v = Some s" and sc: "scoped (dom env0) ls"
      by auto
    let ?rd1 = "snd (reader_tensor rd0 s shape stride off dt md)"
    from Cons.IH [OF sc, of ?rd1] obtain env rd where
      run: "load_args (env0, ?rd1) ls = Inr (env, rd)"
      and sub: "env0 \<subseteq>\<^sub>m env"
      and as: "r_args rd = r_args ?rd1 @ map (value_of env) (value_lines ls)"
      and st: "r_store rd = r_store ?rd1"
      and fe: "\<forall>v h n dev hint. StorageLine v h n dev hint \<in> set ls
                 \<longrightarrow> (\<exists>s. env v = Some s \<and> fetched (r_store ?rd1) h dev s)"
      by blast
    from sub s have here: "env v = Some s"
      by (auto simp: map_le_def dom_def)
    show ?thesis
      apply (rule exI [of _ env], rule exI [of _ rd])
      using run sub as st fe here s TensorLine
      by (auto simp: value_lines_def reader_tensor_def Let_def)
  next
    case (SymintLine val name)
    from Cons.prems SymintLine have sc: "scoped (dom env0) ls" by simp
    let ?rd1 = "snd (reader_symint rd0 val)"
    from Cons.IH [OF sc, of ?rd1] obtain env rd where
      run: "load_args (env0, ?rd1) ls = Inr (env, rd)"
      and sub: "env0 \<subseteq>\<^sub>m env"
      and as: "r_args rd = r_args ?rd1 @ map (value_of env) (value_lines ls)"
      and st: "r_store rd = r_store ?rd1"
      and fe: "\<forall>v h n dev hint. StorageLine v h n dev hint \<in> set ls
                 \<longrightarrow> (\<exists>s. env v = Some s \<and> fetched (r_store ?rd1) h dev s)"
      by blast
    show ?thesis
      apply (rule exI [of _ env], rule exI [of _ rd])
      using run sub as st fe SymintLine
      by (auto simp: value_lines_def reader_symint_def)
  qed
qed

lemma replay_of_scoped:
  assumes "scoped {} ls"
  shows "\<exists>env. replay rstore ls = Inr (map (value_of env) (value_lines ls))
           \<and> (\<forall>v h n dev hint. StorageLine v h n dev hint \<in> set ls
                 \<longrightarrow> (\<exists>s. env v = Some s \<and> fetched rstore h dev s))"
proof -
  from assms have "scoped (dom (Map.empty :: nat \<rightharpoonup> storage)) ls" by simp
  from replay_scoped [OF this, of "new_input_reader rstore None"]
  obtain env rd where "load_args (Map.empty, new_input_reader rstore None) ls = Inr (env, rd)"
    and "r_args rd = r_args (new_input_reader rstore None) @ map (value_of env) (value_lines ls)"
    and "\<forall>v h n dev hint. StorageLine v h n dev hint \<in> set ls
           \<longrightarrow> (\<exists>s. env v = Some s \<and> fetched (r_store (new_input_reader rstore None)) h dev s)"
    by blast
  then show ?thesis
    by (intro exI [of _ env]) (simp add: replay_def new_input_reader_def)
qed


lemma winv_new: "winv (new_input_writer wstore)"
  by (simp add: winv_def new_input_writer_def)

lemma recorded_mono:
  assumes "recorded w t" and "w_seen_storages w \<subseteq>\<^sub>m w_seen_storages w'"
    and "set (w_lines w) \<subseteq> set (w_lines w')" and "w_store w' = w_store w"
  shows "recorded w' t"
proof -
  from assms(1) obtain v hint where v: "w_seen_storages w (st_id (t_storage t)) = Some v"
    and l: "StorageLine v (written_hash (w_store w) (t_storage t)) (st_nbytes (t_storage t))
          (if written_device t = cpu then None else Some (written_device t)) hint
          \<in> set (w_lines w)"
    unfolding recorded_def by blast
  from v assms(2) have "w_seen_storages w' (st_id (t_storage t)) = Some v"
    by (auto simp: map_le_def dom_def)
  with l assms(3,4) show ?thesis
    unfolding recorded_def by auto
qed

lemma writer_storage_step:
  assumes "winv w" and "writer_storage w s dh (Some devh) = Inr (v, w')"
  shows "winv w' \<and> w_seen_storages w' (st_id s) = Some v
       \<and> w_seen_storages w \<subseteq>\<^sub>m w_seen_storages w'
       \<and> dom (w_seen_storages w') = insert (st_id s) (dom (w_seen_storages w))
       \<and> value_lines (w_lines w') = value_lines (w_lines w)
       \<and> w_store w' = w_store w
       \<and> set (w_lines w) \<subseteq> set (w_lines w')
       \<and> v < w_storage_counter w'
       \<and> storage_names (w_lines w') = {..<w_storage_counter w'}
       \<and> (w_seen_storages w (st_id s) = None \<longrightarrow>
            (\<exists>hint. w_lines w' = w_lines w @
               [StorageLine v (written_hash (w_store w) s) (st_nbytes s)
                  (if (if dev_type (st_device s) = ''meta'' then devh else st_device s) = cpu
                   then None
                   else Some (if dev_type (st_device s) = ''meta'' then devh else st_device s))
                  hint]))"
proof (cases "w_seen_storages w (st_id s)")
  case (Some v')
  with assms have "v = v'" "w' = w" by (simp_all add: writer_storage_def)
  with Some assms(1) show ?thesis by (auto simp: winv_def)
next
  case None
  let ?c = "w_storage_counter w"
  from None assms(2) have v: "v = ?c"
    and cnt: "w_storage_counter w' = Suc ?c"
    and seen: "w_seen_storages w' = (w_seen_storages w)(st_id s \<mapsto> ?c)"
    and st: "w_store w' = w_store w"
    by (auto simp: writer_storage_def Let_def split: if_splits)
  from None assms(2) obtain hint where ls: "w_lines w' = w_lines w @
       [StorageLine ?c (written_hash (w_store w) s) (st_nbytes s)
          (if (if dev_type (st_device s) = ''meta'' then devh else st_device s) = cpu
           then None
           else Some (if dev_type (st_device s) = ''meta'' then devh else st_device s))
          hint]"
    by (auto simp: writer_storage_def written_hash_def device_or_default_def Let_def
             split: if_splits option.splits)
  from assms(1) have sc: "scoped {} (w_lines w)"
    and names: "storage_names (w_lines w) = {..<?c}"
    and below: "\<forall>ident v. w_seen_storages w ident = Some v \<longrightarrow> v < ?c"
    by (simp_all add: winv_def)
  have names': "storage_names (w_lines w') = {..<Suc ?c}"
    by (simp add: ls storage_names_append names lessThan_Suc)
  have sc': "scoped {} (w_lines w')"
    by (simp add: ls scoped_append sc names)
  have below': "\<forall>ident v. w_seen_storages w' ident = Some v \<longrightarrow> v < Suc ?c"
    using below by (auto simp: seen less_Suc_eq)
  have inv: "winv w'"
    unfolding winv_def using sc' names' below' cnt by simp
  have sub: "w_seen_storages w \<subseteq>\<^sub>m w_seen_storages w'"
    using None by (auto simp: seen map_le_def)
  show ?thesis
    using inv sub None ls names' cnt v st
    by (auto simp: seen value_lines_append value_lines_def)
qed

lemma writer_tensor_step:
  assumes "winv w"
  shows "\<exists>w' v. writer_tensor w name t = Inr w' \<and> winv w'
          \<and> w_seen_storages w' (st_id (t_storage t)) = Some v
          \<and> w_seen_storages w \<subseteq>\<^sub>m w_seen_storages w'
          \<and> dom (w_seen_storages w')
              = insert (st_id (t_storage t)) (dom (w_seen_storages w))
          \<and> value_lines (w_lines w') = value_lines (w_lines w) @ [tensor_line v name t]
          \<and> w_store w' = w_store w
          \<and> set (w_lines w) \<subseteq> set (w_lines w')
          \<and> (w_seen_storages w (st_id (t_storage t)) = None \<longrightarrow> recorded w' t)"
proof -
  obtain v w1 where ws: "writer_storage w (t_storage t) (Some (t_dtype t)) (Some (t_device t))
                           = Inr (v, w1)"
    by (cases "writer_storage w (t_storage t) (Some (t_dtype t)) (Some (t_device t))")
       (auto simp: writer_storage_def Let_def split: option.splits if_splits)
  note step = writer_storage_step [OF assms ws]
  let ?w' = "w1\<lparr> w_lines := w_lines w1 @ [tensor_line v name t] \<rparr>"
  have wt: "writer_tensor w name t = Inr ?w'"
    by (auto simp: writer_tensor_def ws tensor_line_def stride_or_default_def
          dtype_or_default_def storage_offset_or_default_def Let_def)
  from step have inv1: "winv w1" and below: "v < w_storage_counter w1"
    and names: "storage_names (w_lines w1) = {..<w_storage_counter w1}" by simp_all
  have inv: "winv ?w'"
    using inv1 below names
    by (simp add: winv_def scoped_append storage_names_append tensor_line_def)
  have rec: "recorded ?w' t" if "w_seen_storages w (st_id (t_storage t)) = None"
  proof -
    from step that obtain hint where "w_lines w1 = w_lines w @
               [StorageLine v (written_hash (w_store w) (t_storage t)) (st_nbytes (t_storage t))
                  (if written_device t = cpu then None else Some (written_device t)) hint]"
      unfolding written_device_def by blast
    with step show ?thesis
      unfolding recorded_def by auto
  qed
  show ?thesis
    apply (rule exI [of _ ?w'], rule exI [of _ v])
    using wt inv step rec
    by (auto simp: value_lines_append value_lines_def tensor_line_def)
qed

lemma writer_symint_step:
  assumes "winv w"
  shows "winv (writer_symint w name val)
       \<and> w_seen_storages (writer_symint w name val) = w_seen_storages w
       \<and> value_lines (w_lines (writer_symint w name val))
           = value_lines (w_lines w) @ [SymintLine val name]
       \<and> w_store (writer_symint w name val) = w_store w
       \<and> set (w_lines w) \<subseteq> set (w_lines (writer_symint w name val))"
  using assms
  by (auto simp: winv_def writer_symint_def scoped_append storage_names_append
        value_lines_append value_lines_def)

lemma arg_line_mono:
  assumes "seen \<subseteq>\<^sub>m seen'" and "\<forall>t. snd na = PTensor t \<longrightarrow> st_id (t_storage t) \<in> dom seen"
  shows "arg_line seen' na = arg_line seen na"
proof (cases "snd na")
  case (PTensor t)
  with assms(2) obtain v where "seen (st_id (t_storage t)) = Some v" by auto
  moreover with assms(1) have "seen' (st_id (t_storage t)) = Some v"
    by (auto simp: map_le_def dom_def)
  ultimately show ?thesis using PTensor by (simp add: arg_line_def)
qed (simp_all add: arg_line_def)

lemma write_args_session:
  assumes "winv w" and "write_args w nargs = Inr w'"
  shows "winv w' \<and> w_seen_storages w \<subseteq>\<^sub>m w_seen_storages w'
       \<and> value_lines (w_lines w')
           = value_lines (w_lines w) @ map (arg_line (w_seen_storages w')) nargs
       \<and> (\<forall>t \<in> set (tensors_of nargs). st_id (t_storage t) \<in> dom (w_seen_storages w'))
       \<and> w_store w' = w_store w
       \<and> set (w_lines w) \<subseteq> set (w_lines w')"
  using assms
proof (induction nargs arbitrary: w)
  case Nil
  then show ?case by simp
next
  case (Cons na nargs)
  obtain name a where na: "na = (name, a)" by (cases na)
  show ?case
  proof (cases a)
    case POther
    with Cons.prems na show ?thesis by simp
  next
    case (PTensor t)
    from writer_tensor_step [OF Cons.prems(1), of name t] obtain w1 v where
      wt: "writer_tensor w name t = Inr w1" and inv1: "winv w1"
      and seen1: "w_seen_storages w1 (st_id (t_storage t)) = Some v"
      and sub1: "w_seen_storages w \<subseteq>\<^sub>m w_seen_storages w1"
      and vl1: "value_lines (w_lines w1) = value_lines (w_lines w) @ [tensor_line v name t]"
      and st1: "w_store w1 = w_store w"
      and ls1: "set (w_lines w) \<subseteq> set (w_lines w1)"
      by blast
    from Cons.prems(2) na PTensor wt have rest: "write_args w1 nargs = Inr w'" by simp
    note ih = Cons.IH [OF inv1 rest]
    from ih seen1 have seen': "w_seen_storages w' (st_id (t_storage t)) = Some v"
      by (auto simp: map_le_def dom_def)
    then have line: "arg_line (w_seen_storages w') na = tensor_line v name t"
      by (simp add: arg_line_def na PTensor)
    from ih sub1 have sub: "w_seen_storages w \<subseteq>\<^sub>m w_seen_storages w'"
      by (blast intro: map_le_trans)
    show ?thesis
      using ih sub line vl1 st1 ls1 seen' na PTensor by auto
  next
    case (PInt i)
    note s1 = writer_symint_step [OF Cons.prems(1), of name i]
    from Cons.prems(2) na PInt have rest: "write_args (writer_symint w name i) nargs = Inr w'"
      by simp
    from s1 have inv1: "winv (writer_symint w name i)" by simp
    note ih = Cons.IH [OF inv1 rest]
    show ?thesis
      using ih s1 na PInt by (auto simp: arg_line_def)
  next
    case (PSymInt i)
    note s1 = writer_symint_step [OF Cons.prems(1), of name i]
    from Cons.prems(2) na PSymInt have rest: "write_args (writer_symint w name i) nargs = Inr w'"
      by simp
    from s1 have inv1: "winv (writer_symint w name i)" by simp
    note ih = Cons.IH [OF inv1 rest]
    show ?thesis
      using ih s1 na PSymInt by (auto simp: arg_line_def)
  qed
qed

lemma write_args_total:
  assumes "winv w" and "\<forall>na \<in> set nargs. snd na \<noteq> POther"
  shows "\<exists>w'. write_args w nargs = Inr w'"
  using assms
proof (induction nargs arbitrary: w)
  case Nil
  then show ?case by simp
next
  case (Cons na nargs)
  obtain name a where na: "na = (name, a)" by (cases na)
  show ?case
  proof (cases a)
    case POther
    with Cons.prems na show ?thesis by simp
  next
    case (PTensor t)
    from writer_tensor_step [OF Cons.prems(1), of name t] obtain w1 where
      "writer_tensor w name t = Inr w1" and "winv w1" by blast
    with Cons.IH [of w1] Cons.prems(2) na PTensor show ?thesis by simp
  next
    case (PInt i)
    with Cons.IH [of "writer_symint w name i"] Cons.prems na
      writer_symint_step [OF Cons.prems(1), of name i]
    show ?thesis by simp
  next
    case (PSymInt i)
    with Cons.IH [of "writer_symint w name i"] Cons.prems na
      writer_symint_step [OF Cons.prems(1), of name i]
    show ?thesis by simp
  qed
qed


lemma tensors_of_append: "tensors_of (xs @ ys) = tensors_of xs @ tensors_of ys"
  by (induction xs rule: tensors_of.induct) auto

lemma tensors_of_member: "(n, PTensor t) \<in> set nargs \<Longrightarrow> t \<in> set (tensors_of nargs)"
  by (induction nargs rule: tensors_of.induct) auto

lemma recorded_same_storage:
  assumes "recorded w t0" and "t_storage t0 = t_storage t"
    and "written_device t0 = written_device t"
  shows "recorded w t"
proof -
  have "recorded w t = recorded w t0"
    unfolding recorded_def by (simp only: assms(2) assms(3))
  with assms(1) show ?thesis by simp
qed

lemma write_args_recorded:
  assumes "winv w" and "write_args w nargs = Inr w'"
    and "consistent (prior @ tensors_of nargs)"
    and "\<forall>t \<in> set prior. recorded w t"
    and "dom (w_seen_storages w) \<subseteq> (\<lambda>t. st_id (t_storage t)) ` set prior"
  shows "\<forall>t \<in> set (prior @ tensors_of nargs). recorded w' t"
  using assms
proof (induction nargs arbitrary: w prior)
  case Nil
  then show ?case by simp
next
  case (Cons na nargs)
  obtain name a where na: "na = (name, a)" by (cases na)
  show ?case
  proof (cases a)
    case POther
    with Cons.prems na show ?thesis by simp
  next
    case (PTensor t)
    from writer_tensor_step [OF Cons.prems(1), of name t] obtain w1 where
      wt: "writer_tensor w name t = Inr w1" and inv1: "winv w1"
      and sub1: "w_seen_storages w \<subseteq>\<^sub>m w_seen_storages w1"
      and dom1: "dom (w_seen_storages w1)
                   = insert (st_id (t_storage t)) (dom (w_seen_storages w))"
      and st1: "w_store w1 = w_store w"
      and ls1: "set (w_lines w) \<subseteq> set (w_lines w1)"
      and new: "w_seen_storages w (st_id (t_storage t)) = None \<longrightarrow> recorded w1 t"
      by (elim exE conjE) (rule that)
    from Cons.prems(2) na PTensor wt have rest: "write_args w1 nargs = Inr w'" by simp
    from Cons.prems(3) na PTensor
    have cons: "consistent ((prior @ [t]) @ tensors_of nargs)" by simp
    have old: "recorded w1 t'" if "t' \<in> set prior" for t'
      using that Cons.prems(4) sub1 ls1 st1 by (blast intro: recorded_mono)
    have this_one: "recorded w1 t"
    proof (cases "w_seen_storages w (st_id (t_storage t))")
      case None
      with new show ?thesis by simp
    next
      case (Some v')
      then have "st_id (t_storage t) \<in> dom (w_seen_storages w)" by auto
      with Cons.prems(5) obtain t0 where t0: "t0 \<in> set prior"
        and same: "st_id (t_storage t0) = st_id (t_storage t)" by auto
      from Cons.prems(3) na PTensor t0 same
      have "t_storage t0 = t_storage t \<and> written_device t0 = written_device t"
        unfolding consistent_def by auto
      with old [OF t0] show ?thesis by (blast intro: recorded_same_storage)
    qed
    from old this_one have all1: "\<forall>t \<in> set (prior @ [t]). recorded w1 t" by auto
    from dom1 Cons.prems(5)
    have dom1': "dom (w_seen_storages w1) \<subseteq> (\<lambda>t. st_id (t_storage t)) ` set (prior @ [t])"
      by auto
    from Cons.IH [OF inv1 rest cons all1 dom1'] show ?thesis
      using na PTensor by simp
  next
    case (PInt i)
    note s1 = writer_symint_step [OF Cons.prems(1), of name i]
    from Cons.prems(2) na PInt have rest: "write_args (writer_symint w name i) nargs = Inr w'"
      by simp
    from s1 have inv1: "winv (writer_symint w name i)" by simp
    from Cons.prems(3) na PInt have cons: "consistent (prior @ tensors_of nargs)" by simp
    from Cons.prems(4) s1 have all1: "\<forall>t \<in> set prior. recorded (writer_symint w name i) t"
      by (auto intro: recorded_mono)
    from Cons.prems(5) s1
    have dom1: "dom (w_seen_storages (writer_symint w name i))
                  \<subseteq> (\<lambda>t. st_id (t_storage t)) ` set prior" by simp
    from Cons.IH [OF inv1 rest cons all1 dom1] show ?thesis
      using na PInt by simp
  next
    case (PSymInt i)
    note s1 = writer_symint_step [OF Cons.prems(1), of name i]
    from Cons.prems(2) na PSymInt have rest: "write_args (writer_symint w name i) nargs = Inr w'"
      by simp
    from s1 have inv1: "winv (writer_symint w name i)" by simp
    from Cons.prems(3) na PSymInt have cons: "consistent (prior @ tensors_of nargs)" by simp
    from Cons.prems(4) s1 have all1: "\<forall>t \<in> set prior. recorded (writer_symint w name i) t"
      by (auto intro: recorded_mono)
    from Cons.prems(5) s1
    have dom1: "dom (w_seen_storages (writer_symint w name i))
                  \<subseteq> (\<lambda>t. st_id (t_storage t)) ` set prior" by simp
    from Cons.IH [OF inv1 rest cons all1 dom1] show ?thesis
      using na PSymInt by simp
  qed
qed

lemma replay_storage:
  assumes "scoped (dom env0) ls" and "load_args (env0, rd0) ls = Inr (env, rd)"
    and "StorageLine v h n dev hint \<in> set ls"
  shows "\<exists>rd'. r_store rd' = r_store rd0 \<and> env v = Some (fst (reader_storage rd' h n dev hint))"
  using assms
proof (induction ls arbitrary: env0 rd0)
  case Nil
  then show ?case by simp
next
  case (Cons l ls)
  show ?case
  proof (cases l)
    case (StorageLine v' h' n' dev' hint')
    obtain s rd1 where rs: "reader_storage rd0 h' n' dev' hint' = (s, rd1)"
      by (cases "reader_storage rd0 h' n' dev' hint'")
    from reader_storage_keeps [OF rs] have st1: "r_store rd1 = r_store rd0" by simp
    from Cons.prems(1) StorageLine have sc: "scoped (dom (env0(v' \<mapsto> s))) ls" by simp
    from Cons.prems(2) StorageLine rs
    have run: "load_args (env0(v' \<mapsto> s), rd1) ls = Inr (env, rd)" by simp
    show ?thesis
    proof (cases "StorageLine v h n dev hint \<in> set ls")
      case True
      from Cons.IH [OF sc run True] st1 show ?thesis by auto
    next
      case False
      with Cons.prems(3) StorageLine have same: "v' = v" "h' = h" "n' = n" "dev' = dev"
        "hint' = hint" by auto
      from replay_scoped [OF sc, of rd1] run have "env0(v' \<mapsto> s) \<subseteq>\<^sub>m env" by auto
      then have "env v' = Some s" by (auto simp: map_le_def)
      with rs same have "env v = Some (fst (reader_storage rd0 h n dev hint))" by simp
      then show ?thesis by blast
    qed
  next
    case (TensorLine v' shape stride off dt md name)
    from Cons.prems(1) TensorLine obtain s where s: "env0 v' = Some s"
      and sc: "scoped (dom env0) ls" by auto
    let ?rd1 = "snd (reader_tensor rd0 s shape stride off dt md)"
    from Cons.prems(2) TensorLine s have run: "load_args (env0, ?rd1) ls = Inr (env, rd)"
      by simp
    from Cons.prems(3) TensorLine have mem: "StorageLine v h n dev hint \<in> set ls" by simp
    have "r_store ?rd1 = r_store rd0" by (simp add: reader_tensor_def Let_def)
    with Cons.IH [OF sc run mem] show ?thesis by simp
  next
    case (SymintLine val name)
    from Cons.prems(1) SymintLine have sc: "scoped (dom env0) ls" by simp
    let ?rd1 = "snd (reader_symint rd0 val)"
    from Cons.prems(2) SymintLine have run: "load_args (env0, ?rd1) ls = Inr (env, rd)"
      by simp
    from Cons.prems(3) SymintLine have mem: "StorageLine v h n dev hint \<in> set ls" by simp
    have "r_store ?rd1 = r_store rd0" by (simp add: reader_symint_def)
    with Cons.IH [OF sc run mem] show ?thesis by simp
  qed
qed

lemma replay_storage_of_scoped:
  assumes "scoped {} ls"
  shows "\<exists>env. replay rstore ls = Inr (map (value_of env) (value_lines ls))
           \<and> (\<forall>v h n dev hint. StorageLine v h n dev hint \<in> set ls
                 \<longrightarrow> (\<exists>rd'. r_store rd' = rstore
                        \<and> env v = Some (fst (reader_storage rd' h n dev hint))))"
proof -
  from assms have sc: "scoped (dom (Map.empty :: nat \<rightharpoonup> storage)) ls" by simp
  from replay_scoped [OF sc, of "new_input_reader rstore None"]
  obtain env rd where run: "load_args (Map.empty, new_input_reader rstore None) ls = Inr (env, rd)"
    and as: "r_args rd = r_args (new_input_reader rstore None)
               @ map (value_of env) (value_lines ls)"
    by blast
  have "\<exists>rd'. r_store rd' = rstore \<and> env v = Some (fst (reader_storage rd' h n dev hint))"
    if "StorageLine v h n dev hint \<in> set ls" for v h n dev hint
    using replay_storage [OF sc run that] by (simp add: new_input_reader_def)
  with run as show ?thesis
    by (intro exI [of _ env]) (simp add: replay_def new_input_reader_def)
qed

lemma filter_single:
  assumes "length (filter P xs) = 1" and "x \<in> set xs" and "P x"
  shows "filter P xs = [x]"
proof -
  from assms(2,3) have "x \<in> set (filter P xs)" by simp
  moreover from assms(1) obtain y where "filter P xs = [y]"
    by (cases "filter P xs") auto
  ultimately show ?thesis by simp
qed

lemma wcount_new: "wcount (new_input_writer wstore)"
  by (simp add: wcount_def new_input_writer_def)

lemma writer_storage_count:
  assumes "winv w" and "wcount w" and "writer_storage w s dh devh = Inr (v, w')"
  shows "wcount w'"
proof (cases "w_seen_storages w (st_id s)")
  case (Some v')
  with assms(3) have "w' = w" by (simp add: writer_storage_def)
  with assms(2) show ?thesis by simp
next
  case None
  let ?c = "w_storage_counter w"
  from None assms(3) have cnt: "w_storage_counter w' = Suc ?c"
    and seen: "w_seen_storages w' = (w_seen_storages w)(st_id s \<mapsto> ?c)"
    by (auto simp: writer_storage_def Let_def split: if_splits)
  from None assms(3) obtain l where ls: "w_lines w' = w_lines w @ [l]" and l: "is_storage_line l"
    by (auto simp: writer_storage_def Let_def split: if_splits)
  from assms(1) have below: "\<forall>ident v. w_seen_storages w ident = Some v \<longrightarrow> v < ?c"
    by (simp add: winv_def)
  from assms(2) have len: "length (filter is_storage_line (w_lines w)) = ?c"
    and fin: "finite (dom (w_seen_storages w))"
    and card: "card (dom (w_seen_storages w)) = ?c"
    and inj: "\<forall>i j v. w_seen_storages w i = Some v \<and> w_seen_storages w j = Some v \<longrightarrow> i = j"
    by (simp_all add: wcount_def)
  from None have fresh: "st_id s \<notin> dom (w_seen_storages w)" by auto
  have len': "length (filter is_storage_line (w_lines w')) = Suc ?c"
    by (simp add: ls l len)
  have fin': "finite (dom (w_seen_storages w'))"
    using fin by (simp add: seen)
  have card': "card (dom (w_seen_storages w')) = Suc ?c"
    using fin fresh card by (simp add: seen)
  have inj': "\<forall>i j v. w_seen_storages w' i = Some v \<and> w_seen_storages w' j = Some v \<longrightarrow> i = j"
  proof (intro allI impI)
    fix i j v assume a: "w_seen_storages w' i = Some v \<and> w_seen_storages w' j = Some v"
    show "i = j"
    proof (cases "i = st_id s")
      case True
      with a have v: "v = ?c" by (simp add: seen)
      show ?thesis
      proof (cases "j = st_id s")
        case True
        with \<open>i = st_id s\<close> show ?thesis by simp
      next
        case False
        with a have "w_seen_storages w j = Some v" by (simp add: seen)
        with below v show ?thesis by auto
      qed
    next
      case False
      with a have i: "w_seen_storages w i = Some v" by (simp add: seen)
      show ?thesis
      proof (cases "j = st_id s")
        case True
        with a have "v = ?c" by (simp add: seen)
        with below i show ?thesis by auto
      next
        case False
        with a have "w_seen_storages w j = Some v" by (simp add: seen)
        with inj i show ?thesis by blast
      qed
    qed
  qed
  show ?thesis
    unfolding wcount_def using len' fin' card' inj' cnt by simp
qed

lemma writer_tensor_count:
  assumes "winv w" and "wcount w" and "writer_tensor w name t = Inr w'"
  shows "wcount w'"
proof -
  from assms(3) obtain v w1 where
    ws: "writer_storage w (t_storage t) (Some (t_dtype t)) (Some (t_device t)) = Inr (v, w1)"
    by (cases "writer_storage w (t_storage t) (Some (t_dtype t)) (Some (t_device t))")
       (auto simp: writer_tensor_def)
  from assms(3) ws
  have same: "filter is_storage_line (w_lines w') = filter is_storage_line (w_lines w1)"
    "w_storage_counter w' = w_storage_counter w1" "w_seen_storages w' = w_seen_storages w1"
    by (auto simp: writer_tensor_def Let_def)
  from writer_storage_count [OF assms(1,2) ws] have "wcount w1" .
  with same show ?thesis by (simp add: wcount_def)
qed

lemma writer_symint_count:
  "wcount w \<Longrightarrow> wcount (writer_symint w name val)"
  by (simp add: wcount_def writer_symint_def)

lemma write_args_count:
  assumes "winv w" and "wcount w" and "write_args w nargs = Inr w'"
  shows "wcount w' \<and> dom (w_seen_storages w') = dom (w_seen_storages w) \<union> storage_ids nargs"
  using assms
proof (induction nargs arbitrary: w)
  case Nil
  then show ?case by (simp add: storage_ids_def)
next
  case (Cons na nargs)
  obtain name a where na: "na = (name, a)" by (cases na)
  show ?case
  proof (cases a)
    case POther
    with Cons.prems na show ?thesis by simp
  next
    case (PTensor t)
    from writer_tensor_step [OF Cons.prems(1), of name t] obtain w1 where
      wt: "writer_tensor w name t = Inr w1" and inv1: "winv w1"
      and dom1: "dom (w_seen_storages w1)
                   = insert (st_id (t_storage t)) (dom (w_seen_storages w))"
      by (elim exE conjE) (rule that)
    from writer_tensor_count [OF Cons.prems(1,2) wt] have cnt1: "wcount w1" .
    from Cons.prems(3) na PTensor wt have rest: "write_args w1 nargs = Inr w'" by simp
    from Cons.IH [OF inv1 cnt1 rest] dom1 show ?thesis
      by (auto simp: na PTensor storage_ids_def)
  next
    case (PInt i)
    note s1 = writer_symint_step [OF Cons.prems(1), of name i]
    from Cons.prems(3) na PInt have rest: "write_args (writer_symint w name i) nargs = Inr w'"
      by simp
    from s1 have inv1: "winv (writer_symint w name i)"
      and seen1: "w_seen_storages (writer_symint w name i) = w_seen_storages w" by simp_all
    from Cons.IH [OF inv1 writer_symint_count [OF Cons.prems(2)] rest] seen1 show ?thesis
      by (simp add: na PInt storage_ids_def)
  next
    case (PSymInt i)
    note s1 = writer_symint_step [OF Cons.prems(1), of name i]
    from Cons.prems(3) na PSymInt have rest: "write_args (writer_symint w name i) nargs = Inr w'"
      by simp
    from s1 have inv1: "winv (writer_symint w name i)"
      and seen1: "w_seen_storages (writer_symint w name i) = w_seen_storages w" by simp_all
    from Cons.IH [OF inv1 writer_symint_count [OF Cons.prems(2)] rest] seen1 show ?thesis
      by (simp add: na PSymInt storage_ids_def)
  qed
qed

lemma write_args_first_seen:
  assumes "winv w" and "write_args w nargs = Inr w'"
    and "\<forall>ident \<in> dom (w_seen_storages w).
           \<exists>t0 \<in> set prior. st_id (t_storage t0) = ident \<and> recorded w t0"
  shows "\<forall>ident \<in> dom (w_seen_storages w').
           \<exists>t0 \<in> set (prior @ tensors_of nargs). st_id (t_storage t0) = ident \<and> recorded w' t0"
  using assms
proof (induction nargs arbitrary: w prior)
  case Nil
  then show ?case by simp
next
  case (Cons na nargs)
  obtain name a where na: "na = (name, a)" by (cases na)
  show ?case
  proof (cases a)
    case POther
    with Cons.prems na show ?thesis by simp
  next
    case (PTensor t)
    from writer_tensor_step [OF Cons.prems(1), of name t] obtain w1 where
      wt: "writer_tensor w name t = Inr w1" and inv1: "winv w1"
      and sub1: "w_seen_storages w \<subseteq>\<^sub>m w_seen_storages w1"
      and dom1: "dom (w_seen_storages w1)
                   = insert (st_id (t_storage t)) (dom (w_seen_storages w))"
      and st1: "w_store w1 = w_store w"
      and ls1: "set (w_lines w) \<subseteq> set (w_lines w1)"
      and new: "w_seen_storages w (st_id (t_storage t)) = None \<longrightarrow> recorded w1 t"
      by (elim exE conjE) (rule that)
    from Cons.prems(2) na PTensor wt have rest: "write_args w1 nargs = Inr w'" by simp
    have all1: "\<forall>ident \<in> dom (w_seen_storages w1).
           \<exists>t0 \<in> set (prior @ [t]). st_id (t_storage t0) = ident \<and> recorded w1 t0"
    proof
      fix ident assume mem: "ident \<in> dom (w_seen_storages w1)"
      show "\<exists>t0 \<in> set (prior @ [t]). st_id (t_storage t0) = ident \<and> recorded w1 t0"
      proof (cases "ident \<in> dom (w_seen_storages w)")
        case True
        with Cons.prems(3) obtain t0 where t0: "t0 \<in> set prior"
          and id0: "st_id (t_storage t0) = ident" and rec0: "recorded w t0" by blast
        from rec0 sub1 ls1 st1 have "recorded w1 t0" by (rule recorded_mono)
        with t0 id0 show ?thesis by auto
      next
        case False
        with mem dom1 have ident: "ident = st_id (t_storage t)" by auto
        with False have "w_seen_storages w (st_id (t_storage t)) = None" by auto
        with new have "recorded w1 t" by simp
        with ident show ?thesis by auto
      qed
    qed
    from Cons.IH [OF inv1 rest all1] show ?thesis
      using na PTensor by simp
  next
    case (PInt i)
    note s1 = writer_symint_step [OF Cons.prems(1), of name i]
    from Cons.prems(2) na PInt have rest: "write_args (writer_symint w name i) nargs = Inr w'"
      by simp
    from s1 have inv1: "winv (writer_symint w name i)" by simp
    have all1: "\<forall>ident \<in> dom (w_seen_storages (writer_symint w name i)).
           \<exists>t0 \<in> set prior. st_id (t_storage t0) = ident \<and> recorded (writer_symint w name i) t0"
    proof
      fix ident assume "ident \<in> dom (w_seen_storages (writer_symint w name i))"
      with s1 have "ident \<in> dom (w_seen_storages w)" by simp
      with Cons.prems(3) obtain t0 where t0: "t0 \<in> set prior"
        and id0: "st_id (t_storage t0) = ident" and rec0: "recorded w t0" by blast
      from s1 rec0 have "recorded (writer_symint w name i) t0"
        by (auto intro: recorded_mono)
      with t0 id0
      show "\<exists>t0 \<in> set prior. st_id (t_storage t0) = ident \<and> recorded (writer_symint w name i) t0"
        by auto
    qed
    from Cons.IH [OF inv1 rest all1] show ?thesis
      using na PInt by simp
  next
    case (PSymInt i)
    note s1 = writer_symint_step [OF Cons.prems(1), of name i]
    from Cons.prems(2) na PSymInt have rest: "write_args (writer_symint w name i) nargs = Inr w'"
      by simp
    from s1 have inv1: "winv (writer_symint w name i)" by simp
    have all1: "\<forall>ident \<in> dom (w_seen_storages (writer_symint w name i)).
           \<exists>t0 \<in> set prior. st_id (t_storage t0) = ident \<and> recorded (writer_symint w name i) t0"
    proof
      fix ident assume "ident \<in> dom (w_seen_storages (writer_symint w name i))"
      with s1 have "ident \<in> dom (w_seen_storages w)" by simp
      with Cons.prems(3) obtain t0 where t0: "t0 \<in> set prior"
        and id0: "st_id (t_storage t0) = ident" and rec0: "recorded w t0" by blast
      from s1 rec0 have "recorded (writer_symint w name i) t0"
        by (auto intro: recorded_mono)
      with t0 id0
      show "\<exists>t0 \<in> set prior. st_id (t_storage t0) = ident \<and> recorded (writer_symint w name i) t0"
        by auto
    qed
    from Cons.IH [OF inv1 rest all1] show ?thesis
      using na PSymInt by simp
  qed
qed

lemma value_of_tensor_line:
  "value_of env (tensor_line v name t) =
     PTensor \<lparr> t_storage = the (env v), t_shape = t_shape t, t_stride = t_stride t,
               t_storage_offset = t_storage_offset t, t_dtype = t_dtype t,
               t_device = st_device (the (env v)), t_metadata = t_metadata t \<rparr>"
  by (simp add: tensor_line_def stride_or_default_def storage_offset_or_default_def
        dtype_or_default_def)


subsection \<open>InputWriter and the replay\<close>

text \<open>
  C5. In one session of an \<open>InputWriter\<close> over supported arguments, two tensors whose
  storages have the same identity refer to one variable \<open>buf<v>\<close>:
  \<^item> the script has one storage line per storage identity of the session and no more, so a
    session of views of one storage has exactly one;
  \<^item> the line that binds \<open>v\<close> is the one written when the identity was first seen, with the
    hash, the length and the device of that tensor's storage, and no tensor on another
    storage is given \<open>v\<close>;
  \<^item> both tensor lines read \<open>v\<close>;
  \<^item> the replay binds both tensors to the one storage that \<open>InputReader.storage\<close> returns
    for that line: the stored storage when the store holds the hash, a synthesized one on
    the device of the line otherwise.
\<close>

theorem shared_storage_allocated_once:
  assumes "nargs = pre @ (n1, PTensor t1) # mid @ (n2, PTensor t2) # post"
    and "\<forall>na \<in> set nargs. snd na \<noteq> POther"
    and "st_id (t_storage t1) = st_id (t_storage t2)"
  shows "\<exists>w v h n dev hint t0 rd' s.
           write_args (new_input_writer wstore) nargs = Inr w
         \<and> w_seen_storages w (st_id (t_storage t1)) = Some v
         \<and> w_seen_storages w (st_id (t_storage t2)) = Some v
         \<and> length (filter is_storage_line (w_lines w)) = card (storage_ids nargs)
         \<and> filter (allocates v) (w_lines w) = [StorageLine v h n dev hint]
         \<and> t0 \<in> set (tensors_of nargs) \<and> st_id (t_storage t0) = st_id (t_storage t1)
         \<and> h = written_hash wstore (t_storage t0) \<and> n = st_nbytes (t_storage t0)
         \<and> dev = (if written_device t0 = cpu then None else Some (written_device t0))
         \<and> (\<forall>t \<in> set (tensors_of nargs).
               w_seen_storages w (st_id (t_storage t)) = Some v
                 \<longrightarrow> st_id (t_storage t) = st_id (t_storage t1))
         \<and> value_lines (w_lines w) ! length pre = tensor_line v n1 t1
         \<and> value_lines (w_lines w) ! Suc (length pre + length mid) = tensor_line v n2 t2
         \<and> r_store rd' = rstore \<and> s = fst (reader_storage rd' h n dev hint)
         \<and> (case read_storage rstore h of
               Some stored \<Rightarrow> s = stored
             | None \<Rightarrow> st_device s = device_or_default dev
                        \<and> st_content s = Synthesized (dtype_or_default hint)
                                           (n div itemsize (dtype_or_default hint)))
         \<and> (\<exists>as t1' t2'. replay rstore (w_lines w) = Inr as
               \<and> as ! length pre = PTensor t1'
               \<and> as ! Suc (length pre + length mid) = PTensor t2'
               \<and> t_storage t1' = s \<and> t_storage t2' = s)"
proof -
  let ?i = "length pre" and ?j = "Suc (length pre + length mid)"
  from write_args_total [OF winv_new assms(2), of wstore]
  obtain w where w: "write_args (new_input_writer wstore) nargs = Inr w" by blast
  note session = write_args_session [OF winv_new w]
  from session have inv: "winv w"
    and lines: "value_lines (w_lines w) = map (arg_line (w_seen_storages w)) nargs"
    and store: "w_store w = wstore"
    by (simp_all add: new_input_writer_def value_lines_def)
  have "t1 \<in> set (tensors_of nargs)" by (simp add: assms(1) tensors_of_append)
  with session obtain v where v: "w_seen_storages w (st_id (t_storage t1)) = Some v"
    by auto
  from v assms(3) have v2: "w_seen_storages w (st_id (t_storage t2)) = Some v" by simp
  from inv v have names: "v \<in> storage_names (w_lines w)" and sc: "scoped {} (w_lines w)"
    by (auto simp: winv_def)
  then have one: "length (filter (allocates v) (w_lines w)) = 1"
    by (blast intro: scoped_one_allocation)
  from write_args_count [OF winv_new wcount_new w]
  have cnt: "wcount w" and dom: "dom (w_seen_storages w) = storage_ids nargs"
    by (simp_all add: new_input_writer_def)
  from cnt dom have total: "length (filter is_storage_line (w_lines w)) = card (storage_ids nargs)"
    by (simp add: wcount_def)
  from cnt have inj: "\<forall>i j v. w_seen_storages w i = Some v \<and> w_seen_storages w j = Some v
                        \<longrightarrow> i = j"
    by (simp add: wcount_def)
  from inj v have only: "\<forall>t \<in> set (tensors_of nargs).
               w_seen_storages w (st_id (t_storage t)) = Some v
                 \<longrightarrow> st_id (t_storage t) = st_id (t_storage t1)"
    by blast
  have first: "\<forall>ident \<in> dom (w_seen_storages w).
           \<exists>t0 \<in> set ([] @ tensors_of nargs). st_id (t_storage t0) = ident \<and> recorded w t0"
    by (rule write_args_first_seen [OF winv_new w]) (simp add: new_input_writer_def)
  from v have "st_id (t_storage t1) \<in> dom (w_seen_storages w)" by auto
  with first obtain t0 where t0: "t0 \<in> set (tensors_of nargs)"
    and id0: "st_id (t_storage t0) = st_id (t_storage t1)" and rec0: "recorded w t0"
    by auto
  let ?h = "written_hash wstore (t_storage t0)" and ?n = "st_nbytes (t_storage t0)"
  let ?dev = "if written_device t0 = cpu then None else Some (written_device t0)"
  from rec0 id0 v store obtain hint where
    mem: "StorageLine v ?h ?n ?dev hint \<in> set (w_lines w)"
    unfolding recorded_def by auto
  have alloc: "filter (allocates v) (w_lines w) = [StorageLine v ?h ?n ?dev hint]"
    using one mem by (rule filter_single) simp
  from replay_storage_of_scoped [OF sc, of rstore] obtain env
    where run: "replay rstore (w_lines w) = Inr (map (value_of env) (value_lines (w_lines w)))"
      and bound: "\<forall>v h n dev hint. StorageLine v h n dev hint \<in> set (w_lines w)
                 \<longrightarrow> (\<exists>rd'. r_store rd' = rstore
                        \<and> env v = Some (fst (reader_storage rd' h n dev hint)))"
    by blast
  from bound mem obtain rd' where rd': "r_store rd' = rstore"
    and env: "env v = Some (fst (reader_storage rd' ?h ?n ?dev hint))"
    by blast
  let ?s = "fst (reader_storage rd' ?h ?n ?dev hint)"
  have what: "(case read_storage rstore ?h of
               Some stored \<Rightarrow> ?s = stored
             | None \<Rightarrow> st_device ?s = device_or_default ?dev
                        \<and> st_content ?s = Synthesized (dtype_or_default hint)
                                           (?n div itemsize (dtype_or_default hint)))"
    using rd'
    by (simp add: reader_storage_def rand_strided_storage_def stride_or_default_def Let_def
          split: option.splits)
  have i: "nargs ! ?i = (n1, PTensor t1)" by (simp add: assms(1))
  have "nargs = (pre @ (n1, PTensor t1) # mid) @ (n2, PTensor t2) # post"
    by (simp add: assms(1))
  then have j: "nargs ! ?j = (n2, PTensor t2)"
    by (metis length_append length_Cons add_Suc_right nth_append_length)
  have li: "?i < length nargs" and lj: "?j < length nargs" by (simp_all add: assms(1))
  have line1: "value_lines (w_lines w) ! ?i = tensor_line v n1 t1"
    unfolding lines nth_map [OF li] i by (simp add: arg_line_def v)
  have line2: "value_lines (w_lines w) ! ?j = tensor_line v n2 t2"
    unfolding lines nth_map [OF lj] j by (simp add: arg_line_def v2)
  have li': "?i < length (value_lines (w_lines w))"
    and lj': "?j < length (value_lines (w_lines w))"
    by (simp_all add: lines assms(1))
  let ?as = "map (value_of env) (value_lines (w_lines w))"
  have a1: "?as ! ?i = value_of env (tensor_line v n1 t1)"
    using li' line1 by simp
  have a2: "?as ! ?j = value_of env (tensor_line v n2 t2)"
    using lj' line2 by simp
  have replayed: "\<exists>as t1' t2'. replay rstore (w_lines w) = Inr as
               \<and> as ! ?i = PTensor t1' \<and> as ! ?j = PTensor t2'
               \<and> t_storage t1' = ?s \<and> t_storage t2' = ?s"
    using run a1 a2 env by (simp add: value_of_tensor_line)
  show ?thesis
    apply (rule exI [of _ w], rule exI [of _ v], rule exI [of _ ?h], rule exI [of _ ?n])
    apply (rule exI [of _ ?dev], rule exI [of _ hint], rule exI [of _ t0])
    apply (rule exI [of _ rd'], rule exI [of _ ?s])
    using w v v2 total alloc t0 id0 only line1 line2 rd' what replayed
    apply (intro conjI)
                     apply (assumption | rule refl)+
    done
qed

text \<open>
  C6, as the code has it. \<open>InputWriter.tensor\<close> writes the stride, the storage offset and
  the dtype of a tensor exactly when they differ from the default (the contiguous stride of
  the shape, 0, \<open>float32\<close>), and its storage line, written when the storage is first seen,
  carries the device exactly when it is not \<open>cpu\<close>. A reader given a line without one of
  these fields takes the default stride, offset 0 and \<open>float32\<close>, so the written line gives
  back the tensor's own stride, offset and dtype; without a device it synthesizes on
  \<open>cpu\<close>, but a storage it loads from the store keeps the device it was stored with.
\<close>

theorem default_fields_omitted:
  "\<exists>v w'. writer_tensor w name t = Inr w'
     \<and> last (w_lines w') =
         TensorLine v (t_shape t)
           (if t_stride t = make_contiguous_strides_for (t_shape t) then None
            else Some (t_stride t))
           (if t_storage_offset t = 0 then None else Some (t_storage_offset t))
           (if t_dtype t = Float32 then None else Some (t_dtype t))
           (t_metadata t) name
     \<and> (w_seen_storages w (st_id (t_storage t)) = None \<longrightarrow>
          (\<exists>h hint. w_lines w' = w_lines w @
             [StorageLine v h (st_nbytes (t_storage t))
                (if written_device t = cpu then None else Some (written_device t)) hint,
              last (w_lines w')]))
     \<and> value_of env (last (w_lines w')) =
         PTensor \<lparr> t_storage = the (env v), t_shape = t_shape t, t_stride = t_stride t,
                   t_storage_offset = t_storage_offset t, t_dtype = t_dtype t,
                   t_device = st_device (the (env v)), t_metadata = t_metadata t \<rparr>
     \<and> t_stride (fst (reader_tensor rd s shape None off dt md))
         = make_contiguous_strides_for shape
     \<and> t_storage_offset (fst (reader_tensor rd s shape stride None dt md)) = 0
     \<and> t_dtype (fst (reader_tensor rd s shape stride off None md)) = Float32
     \<and> (read_storage (r_store rd) h' = None \<longrightarrow>
          st_device (fst (reader_storage rd h' n None hint')) = cpu)
     \<and> (read_storage (r_store rd) h' = Some s' \<longrightarrow>
          st_device (fst (reader_storage rd h' n None hint')) = st_device s')"
proof -
  obtain v w1 where ws: "writer_storage w (t_storage t) (Some (t_dtype t)) (Some (t_device t))
                           = Inr (v, w1)"
    by (cases "writer_storage w (t_storage t) (Some (t_dtype t)) (Some (t_device t))")
       (auto simp: writer_storage_def Let_def split: option.splits if_splits)
  let ?w' = "w1\<lparr> w_lines := w_lines w1 @ [tensor_line v name t] \<rparr>"
  have wt: "writer_tensor w name t = Inr ?w'"
    by (auto simp: writer_tensor_def ws tensor_line_def stride_or_default_def
          dtype_or_default_def storage_offset_or_default_def Let_def)
  have new: "\<exists>h hint. w_lines w1 = w_lines w @
             [StorageLine v h (st_nbytes (t_storage t))
                (if written_device t = cpu then None else Some (written_device t)) hint]"
    if "w_seen_storages w (st_id (t_storage t)) = None"
    using that ws
    by (auto simp: writer_storage_def written_device_def device_or_default_def Let_def
             split: if_splits)
  have reader: "t_stride (fst (reader_tensor rd s shape None off dt md))
         = make_contiguous_strides_for shape
     \<and> t_storage_offset (fst (reader_tensor rd s shape stride None dt md)) = 0
     \<and> t_dtype (fst (reader_tensor rd s shape stride off None md)) = Float32"
    by (simp add: reader_tensor_def stride_or_default_def storage_offset_or_default_def
          dtype_or_default_def Let_def)
  have device: "(read_storage (r_store rd) h' = None \<longrightarrow>
          st_device (fst (reader_storage rd h' n None hint')) = cpu)
     \<and> (read_storage (r_store rd) h' = Some s' \<longrightarrow>
          st_device (fst (reader_storage rd h' n None hint')) = st_device s')"
    by (simp add: reader_storage_def rand_strided_storage_def device_or_default_def Let_def)
  show ?thesis
    apply (rule exI [of _ v], rule exI [of _ ?w'])
    using wt new reader device
    by (auto simp: value_of_tensor_line) (simp_all add: tensor_line_def)
qed

text \<open>
  C2, as the code has it. Every session of integers, symbolic integers and tensors written
  by an \<open>InputWriter\<close> replays without an error, and the values come back in order: an
  integer as itself, a symbolic integer as its hint, a tensor with its shape, stride,
  storage offset, dtype and metadata. A tensor whose storage is synthesized (no store, no
  hash, or a hash the store does not hold) is on its original device; a tensor whose
  storage is loaded is on the stored storage and on that storage's device, whatever the
  device of the original was. The session is one in which a storage is one object
  (\<open>consistent\<close>).
\<close>

theorem roundtrip_faithful:
  assumes "\<forall>na \<in> set nargs. snd na \<noteq> POther" and "consistent (tensors_of nargs)"
  shows "\<exists>as. roundtrip wstore rstore nargs = Inr as
           \<and> list_all2 (reconstructs wstore rstore) (map snd nargs) as"
proof -
  from write_args_total [OF winv_new assms(1)] obtain w
    where w: "write_args (new_input_writer wstore) nargs = Inr w" by blast
  note session = write_args_session [OF winv_new w]
  from session have inv: "winv w"
    and lines: "value_lines (w_lines w) = map (arg_line (w_seen_storages w)) nargs"
    and store: "w_store w = wstore"
    by (simp_all add: new_input_writer_def value_lines_def)
  have "\<forall>t \<in> set ([] @ tensors_of nargs). recorded w t"
    using winv_new w
  proof (rule write_args_recorded)
    show "consistent ([] @ tensors_of nargs)" using assms(2) by simp
  qed (simp_all add: new_input_writer_def)
  then have rec: "recorded w t" if "t \<in> set (tensors_of nargs)" for t
    using that by simp
  from inv have sc: "scoped {} (w_lines w)" by (simp add: winv_def)
  from replay_of_scoped [OF sc, of rstore] obtain env
    where run: "replay rstore (w_lines w) = Inr (map (value_of env) (value_lines (w_lines w)))"
      and fe: "\<forall>v h n dev hint. StorageLine v h n dev hint \<in> set (w_lines w)
                 \<longrightarrow> (\<exists>s. env v = Some s \<and> fetched rstore h dev s)"
    by blast
  have each: "reconstructs wstore rstore (snd na) (value_of env (arg_line (w_seen_storages w) na))"
    if na: "na \<in> set nargs" for na
  proof (cases "snd na")
    case POther
    with assms(1) na show ?thesis by auto
  next
    case (PInt i)
    then show ?thesis by (simp add: reconstructs_def arg_line_def)
  next
    case (PSymInt i)
    then show ?thesis by (simp add: reconstructs_def arg_line_def)
  next
    case (PTensor t)
    with na have "(fst na, PTensor t) \<in> set nargs" by (metis prod.collapse)
    then have mem: "t \<in> set (tensors_of nargs)" by (rule tensors_of_member)
    from rec [OF mem] store obtain v hint
      where v: "w_seen_storages w (st_id (t_storage t)) = Some v"
        and l: "StorageLine v (written_hash wstore (t_storage t)) (st_nbytes (t_storage t))
                  (if written_device t = cpu then None else Some (written_device t)) hint
                  \<in> set (w_lines w)"
      unfolding recorded_def by auto
    from fe l obtain s where s: "env v = Some s"
      and f: "fetched rstore (written_hash wstore (t_storage t))
                (if written_device t = cpu then None else Some (written_device t)) s"
      by blast
    from assms(2) have "\<forall>t \<in> set (tensors_of nargs).
        dev_type (st_device (t_storage t)) \<noteq> ''meta'' \<longrightarrow> t_device t = st_device (t_storage t)"
      by (simp add: consistent_def)
    with mem have dev: "written_device t = t_device t"
      by (simp add: written_device_def)
    have "device_or_default (if written_device t = cpu then None else Some (written_device t))
            = t_device t"
      using dev by (simp add: device_or_default_def)
    with f have "case read_storage rstore (written_hash wstore (t_storage t)) of
                   Some s' \<Rightarrow> s = s'
                 | None \<Rightarrow> st_device s = t_device t \<and> (\<exists>dt n. st_content s = Synthesized dt n)"
      unfolding fetched_def by (simp split: option.splits)
    then show ?thesis
      using PTensor v s
      by (auto simp: reconstructs_def arg_line_def value_of_tensor_line split: option.splits)
  qed
  have "list_all2 (reconstructs wstore rstore) (map snd nargs)
          (map (value_of env) (value_lines (w_lines w)))"
    unfolding lines using each
    by (simp add: list_all2_map1 list_all2_map2 list_all2_same)
  with run w show ?thesis
    by (simp add: roundtrip_def)
qed


theorem shared_storage_allocated_once_witness:
  "write_args (new_input_writer None)
     [(''x'', PTensor matrix), (''n'', PSymInt 3), (''y'', PTensor column)]
     = Inr \<lparr> w_lines =
               [StorageLine 0 None 24 None None,
                TensorLine 0 [2, 3] None None None [] ''x'',
                SymintLine 3 ''n'',
                TensorLine 0 [2] (Some [3]) (Some 1) None [] ''y''],
             w_storage_counter = 1, w_store = None,
             w_seen_storages = [7 \<mapsto> 0] \<rparr>
   \<and> (\<exists>s t1' t2'.
         replay None
           [StorageLine 0 None 24 None None, TensorLine 0 [2, 3] None None None [] ''x'',
            SymintLine 3 ''n'', TensorLine 0 [2] (Some [3]) (Some 1) None [] ''y'']
           = Inr [PTensor t1', PInt 3, PTensor t2']
         \<and> t_storage t1' = s \<and> t_storage t2' = s
         \<and> st_device s = cpu \<and> st_content s = Synthesized Float32 6)"
proof -
  let ?ls = "[StorageLine 0 None 24 None None, TensorLine 0 [2, 3] None None None [] ''x'',
              SymintLine 3 ''n'', TensorLine 0 [2] (Some [3]) (Some 1) None [] ''y'']"
  let ?nargs = "[(''x'', PTensor matrix), (''n'', PSymInt 3), (''y'', PTensor column)]"
  have w: "write_args (new_input_writer None) ?nargs
           = Inr \<lparr> w_lines = ?ls, w_storage_counter = 1, w_store = None,
                   w_seen_storages = [7 \<mapsto> 0] \<rparr>"
    by (simp add: writer_simps matrix_def column_def host_storage_def)
  have session: "?nargs = [] @ (''x'', PTensor matrix) # [(''n'', PSymInt 3)]
                            @ (''y'', PTensor column) # []"
    by simp
  have supported: "\<forall>na \<in> set ?nargs. snd na \<noteq> POther" by simp
  have same: "st_id (t_storage matrix) = st_id (t_storage column)"
    by (simp add: matrix_def column_def)
  from shared_storage_allocated_once [OF session supported same, of None None]
  obtain w' v h n dev hint s as t1' t2' where
    w': "write_args (new_input_writer None) ?nargs = Inr w'"
    and seen: "w_seen_storages w' (st_id (t_storage matrix)) = Some v"
    and alloc: "filter (allocates v) (w_lines w') = [StorageLine v h n dev hint]"
    and what: "(case read_storage None h of
               Some stored \<Rightarrow> s = stored
             | None \<Rightarrow> st_device s = device_or_default dev
                        \<and> st_content s = Synthesized (dtype_or_default hint)
                                           (n div itemsize (dtype_or_default hint)))"
    and run: "replay None (w_lines w') = Inr as"
    and t1': "as ! length ([] :: (string \<times> arg) list) = PTensor t1'"
    and t2': "as ! Suc (length ([] :: (string \<times> arg) list) + length [(''n'', PSymInt 3)])
                = PTensor t2'"
    and s1: "t_storage t1' = s" and s2: "t_storage t2' = s"
    by (elim exE conjE)
  from w w' have lines: "w_lines w' = ?ls" and v: "w_seen_storages w' = [7 \<mapsto> 0]" by auto
  from seen v have v0: "v = 0" by (simp add: matrix_def host_storage_def)
  from alloc lines v0 have line: "h = None" "n = 24" "dev = None" "hint = None" by simp_all
  from what line have synth: "st_device s = cpu" "st_content s = Synthesized Float32 6"
    by (simp_all add: read_storage_def device_or_default_def dtype_or_default_def)
  have "\<exists>a b c. replay None ?ls = Inr [a, b, c] \<and> b = PInt 3"
    by (simp add: replay_def new_input_reader_def reader_storage_def reader_tensor_def
          reader_symint_def read_storage_def Let_def)
  then obtain a c where shape: "replay None ?ls = Inr [a, PInt 3, c]" by blast
  with run lines have as: "as = [a, PInt 3, c]" by simp
  with t1' t2' have "a = PTensor t1'" "c = PTensor t2'" by simp_all
  with shape s1 s2 synth w show ?thesis by blast
qed

theorem default_fields_omitted_witness:
  "\<exists>v w' h hint. writer_tensor (new_input_writer None) ''x'' cuda_matrix = Inr w'
     \<and> w_lines w' = [StorageLine v h 24 (Some cuda0) hint,
                      TensorLine v [3, 2] (Some [1, 3]) None None [] ''x'']
     \<and> t_stride (fst (reader_tensor (new_input_reader None None) cuda_storage [3, 2]
                         None None None [])) = [2, 1]
     \<and> st_device (fst (reader_storage (new_input_reader None None) None 24 None None)) = cpu"
proof -
  have seen: "w_seen_storages (new_input_writer None) (st_id (t_storage cuda_matrix)) = None"
    by (simp add: new_input_writer_def)
  have dev: "written_device cuda_matrix = cuda0" "cuda0 \<noteq> cpu"
    by (simp_all add: written_device_def cuda_matrix_def cuda_storage_def cuda0_def cpu_def)
  have none: "read_storage (r_store (new_input_reader None None)) None = None"
    by (simp add: read_storage_def new_input_reader_def)
  from default_fields_omitted [where w = "new_input_writer None" and name = "''x''"
      and t = cuda_matrix and env = Map.empty and rd = "new_input_reader None None"
      and s = cuda_storage and shape = "[3, 2]" and off = None and dt = None and md = "[]"
      and stride = None and h' = None and n = 24 and hint' = None and s' = cuda_storage]
  obtain v w' h hint where "writer_tensor (new_input_writer None) ''x'' cuda_matrix = Inr w'"
    and "last (w_lines w') = TensorLine v [3, 2] (Some [1, 3]) None None [] ''x''"
    and "w_lines w' = w_lines (new_input_writer None) @
           [StorageLine v h 24 (Some cuda0) hint, last (w_lines w')]"
    and "t_stride (fst (reader_tensor (new_input_reader None None) cuda_storage [3, 2]
                         None None None [])) = [2, 1]"
    and "st_device (fst (reader_storage (new_input_reader None None) None 24 None None)) = cpu"
    using seen dev none
    by (auto simp: cuda_matrix_def cuda_storage_def)
  then show ?thesis
    by (auto simp: new_input_writer_def)
qed

theorem omitted_device_not_default:
  "map_sum id w_lines (writer_tensor (new_input_writer (Some content_hash)) ''x'' matrix)
     = Inr [StorageLine 0 (Some ''h24'') 24 None None,
            TensorLine 0 [2, 3] None None None [] ''x'']
   \<and> st_device (fst (reader_storage (new_input_reader (Some cuda_store) None)
                        (Some ''h24'') 24 None None)) = cuda0
   \<and> cuda0 \<noteq> cpu"
  by (simp add: writer_simps matrix_def host_storage_def content_hash_def reader_storage_def
        read_storage_def new_input_reader_def cuda_store_def cuda_storage_def cuda0_def)

theorem roundtrip_faithful_witness:
  "\<exists>as. roundtrip (Some content_hash) None shared_session = Inr as
     \<and> list_all2 (reconstructs (Some content_hash) None) (map snd shared_session) as"
proof -
  have supported: "\<forall>na \<in> set shared_session. snd na \<noteq> POther"
    by (simp add: shared_session_def)
  have one_object: "consistent (tensors_of shared_session)"
    by (simp add: shared_session_def consistent_def matrix_def column_def host_storage_def
          written_device_def cpu_def)
  from roundtrip_faithful [OF supported one_object] show ?thesis .
qed

theorem roundtrip_changes_device:
  "cuda_store (content_hash (t_storage matrix)) = Some cuda_storage
   \<and> roundtrip (Some content_hash) (Some cuda_store) [(''x'', PTensor matrix)]
       = Inr [PTensor (matrix\<lparr>t_storage := cuda_storage, t_device := cuda0\<rparr>)]
   \<and> t_device matrix \<noteq> cuda0"
  by (simp add: roundtrip_def replay_def writer_simps matrix_def host_storage_def
        content_hash_def reader_storage_def reader_tensor_def read_storage_def
        new_input_reader_def cuda_store_def cuda_storage_def cuda0_def tick_def)

end
